theory Spec2Isabelle
  imports Complex_Main "HOL-Library.Sublist"
begin

section \<open>Step-wise code generation driver (eval/scripts/gencode_json.py)\<close>

text \<open>
  The development embeds the class \<open>Gencode\<close> and the driver \<open>main\<close> of
  \<^verbatim>\<open>eval/scripts/gencode_json.py\<close>. Python exceptions are values of the type
  \<open>error\<close>; a method that mutates \<open>self\<close>, the file system or calls the model returns the
  exception it raised (if any) together with the state reached at that point, since a
  Python exception does not undo earlier mutations.
\<close>

subsection \<open>Exceptions\<close>

text \<open>
  \<open>Exception msg\<close> is the \<^verbatim>\<open>raise Exception(...)\<close> of line 78. \<open>IndexError\<close>,
  \<open>TypeError\<close> and \<open>AssertionError\<close> are raised by list indexing, by \<^verbatim>\<open>str.join\<close> on a
  list holding \<^verbatim>\<open>None\<close> and by the \<^verbatim>\<open>assert\<close> of line 130. \<open>OSError\<close> stands for the
  failures of \<^verbatim>\<open>pathlib\<close>. The remaining constructors name an exception raised inside an
  imported helper: \<^verbatim>\<open>str.format\<close>, \<^verbatim>\<open>extract_function_name\<close>, the model client and
  \<^verbatim>\<open>read_from_jsonl\<close>.
\<close>

datatype error =
    Exception string
  | IndexError
  | TypeError
  | AssertionError
  | OSError
  | FormatError
  | ExtractNameError
  | ModelClientError
  | JsonlError

subsection \<open>Strings and lists of Python\<close>

text \<open>\<^verbatim>\<open>str(n)\<close> for an integer, as an f-string renders it.\<close>

fun str_nat :: "nat \<Rightarrow> string" where
  "str_nat n =
     (if n < 10 then [char_of (48 + n)]
      else str_nat (n div 10) @ [char_of (48 + n mod 10)])"

declare str_nat.simps [simp del]

definition str_int :: "int \<Rightarrow> string" where
  "str_int i = (if i < 0 then ''-'' @ str_nat (nat (- i)) else str_nat (nat i))"

text \<open>\<^verbatim>\<open>xs[i]\<close> and \<^verbatim>\<open>xs[i] = v\<close>: a negative index counts from the end, an index out of
  range raises \<^verbatim>\<open>IndexError\<close>.\<close>

definition py_index :: "'a list \<Rightarrow> int \<Rightarrow> error + 'a" where
  "py_index xs i =
     (let n = int (length xs)
      in if 0 \<le> i \<and> i < n then Inr (xs ! nat i)
         else if - n \<le> i \<and> i < 0 then Inr (xs ! nat (n + i))
         else Inl IndexError)"

definition py_setitem :: "'a list \<Rightarrow> int \<Rightarrow> 'a \<Rightarrow> error + 'a list" where
  "py_setitem xs i v =
     (let n = int (length xs)
      in if 0 \<le> i \<and> i < n then Inr (xs[nat i := v])
         else if - n \<le> i \<and> i < 0 then Inr (xs[nat (n + i) := v])
         else Inl IndexError)"

text \<open>\<^verbatim>\<open>sep.join(xs)\<close> on a list of strings.\<close>

fun join :: "string \<Rightarrow> string list \<Rightarrow> string" where
  "join sep [] = []"
| "join sep [x] = x"
| "join sep (x # y # ys) = x @ sep @ join sep (y # ys)"

text \<open>The lists joined by \<^verbatim>\<open>process_problem_steps\<close> hold cache slots, which may be
  \<^verbatim>\<open>None\<close>; \<^verbatim>\<open>str.join\<close> raises \<^verbatim>\<open>TypeError\<close> on such an item.\<close>

definition py_join :: "string \<Rightarrow> string option list \<Rightarrow> error + string" where
  "py_join sep xs =
     (if list_all (\<lambda>x. x \<noteq> None) xs then Inr (join sep (map the xs)) else Inl TypeError)"

subsection \<open>Paths and the file system\<close>

text \<open>
  A \<^verbatim>\<open>Path\<close> is the list of the segments it was built from: \<^verbatim>\<open>Path(a, b)\<close> is \<open>[a, b]\<close>
  and \<^verbatim>\<open>p / s\<close> is \<open>p @ [s]\<close>. Segments are opaque names (a segment holding a separator
  is not split). The file system maps a path to a regular file with its text or to a
  directory; symbolic links and permissions are not modelled.
\<close>

type_synonym path = "string list"

datatype node = File string | Dir

type_synonym filesystem = "path \<Rightarrow> node option"

definition is_file :: "filesystem \<Rightarrow> path \<Rightarrow> bool" where
  "is_file fsys p = (case fsys p of Some (File c) \<Rightarrow> True | _ \<Rightarrow> False)"

definition path_exists :: "filesystem \<Rightarrow> path \<Rightarrow> bool" where
  "path_exists fsys p = (fsys p \<noteq> None)"

definition read_text :: "filesystem \<Rightarrow> path \<Rightarrow> error + string" where
  "read_text fsys p = (case fsys p of Some (File c) \<Rightarrow> Inr c | _ \<Rightarrow> Inl OSError)"

text \<open>\<^verbatim>\<open>p.mkdir(parents=True, exist_ok=True)\<close>: fails when \<open>p\<close> or one of its ancestors is a
  regular file, otherwise creates every missing directory on the way.\<close>

definition mkdir_parents :: "filesystem \<Rightarrow> path \<Rightarrow> error + filesystem" where
  "mkdir_parents fsys p =
     (if list_ex (is_file fsys) (prefixes p) then Inl OSError
      else Inr (\<lambda>q. if prefix q p \<and> fsys q = None then Some Dir else fsys q))"

text \<open>\<^verbatim>\<open>p.write_text(s)\<close>: fails on a directory and when the parent directory is missing,
  otherwise creates or overwrites the file.\<close>

definition write_text :: "filesystem \<Rightarrow> path \<Rightarrow> string \<Rightarrow> error + filesystem" where
  "write_text fsys p s =
     (if p = [] \<or> fsys p = Some Dir \<or> (butlast p \<noteq> [] \<and> fsys (butlast p) \<noteq> Some Dir)
      then Inl OSError
      else Inr (fsys(p \<mapsto> File s)))"

subsection \<open>Problems, the orchestrator object and the outside world\<close>

record sub_step =
  step_description_prompt :: string
  function_header :: string
  return_line :: string

record problem =
  problem_id :: string
  required_dependencies :: string
  sub_steps :: "sub_step list"

text \<open>The keyword arguments handed to \<^verbatim>\<open>get_model_function\<close>: a dictionary from the
  argument's name to its value.\<close>

datatype kwarg = IntArg int | FloatArg real

type_synonym model_kwargs = "string \<Rightarrow> kwarg option"

text \<open>
  The functions imported from \<^verbatim>\<open>scicode.parse.parse\<close> and \<^verbatim>\<open>scicode.gen.models\<close>, the
  builtin \<^verbatim>\<open>str.format\<close> applied to the three named fields, and the module constant
  \<^verbatim>\<open>DEFAULT_PROMPT_TEMPLATE\<close> are parameters of the development. \<open>None\<close> is an exception
  raised inside the helper, except for \<open>get_function_from_code\<close>, whose \<open>None\<close> is the
  value it returns when the function is not found in the text.
  \<open>get_model_function ext m kw p\<close> is \<^verbatim>\<open>get_model_function(m, **kw)(p)\<close>.
\<close>

record externals =
  extract_function_name :: "string \<Rightarrow> string option"
  get_function_from_code :: "string \<Rightarrow> string \<Rightarrow> string option"
  extract_python_script :: "string \<Rightarrow> string"
  get_model_function :: "string \<Rightarrow> model_kwargs \<Rightarrow> string \<Rightarrow> string option"
  str_format :: "string \<Rightarrow> string \<Rightarrow> string \<Rightarrow> string \<Rightarrow> string option"
  read_from_jsonl :: "filesystem \<Rightarrow> path \<Rightarrow> problem list option"
  DEFAULT_PROMPT_TEMPLATE :: string

text \<open>The fields of \<^verbatim>\<open>Gencode\<close> (lines 16-22).\<close>

record Gencode =
  model :: string
  output_dir :: path
  prompt_dir :: path
  temperature :: real
  previous_llm_code :: "string option list"

text \<open>What the orchestrator acts on: the files, and the log of the model invocations made
  so far (model identifier, keyword arguments, prompt).\<close>

record world =
  fs :: filesystem
  calls :: "(string \<times> model_kwargs \<times> string) list"

subsection \<open>Saving prompts and responses (lines 24-39)\<close>

definition save_prompt_with_steps ::
  "Gencode \<Rightarrow> filesystem \<Rightarrow> problem \<Rightarrow> string \<Rightarrow> int \<Rightarrow> int \<Rightarrow> error option \<times> filesystem" where
  "save_prompt_with_steps self fsys prob_data prompt num_steps tot_steps =
     (let output_dir' = prompt_dir self @ [model self]
      in case mkdir_parents fsys output_dir' of
           Inl e \<Rightarrow> (Some e, fsys)
         | Inr fs1 \<Rightarrow>
             (let output_file_path =
                    output_dir' @ [problem_id prob_data @ ''.'' @ str_int num_steps @ ''.txt'']
              in case write_text fs1 output_file_path prompt of
                   Inl e \<Rightarrow> (Some e, fs1)
                 | Inr fs2 \<Rightarrow> (None, fs2)))"

definition save_response_with_steps ::
  "externals \<Rightarrow> Gencode \<Rightarrow> filesystem \<Rightarrow> problem \<Rightarrow> string \<Rightarrow> string \<Rightarrow> int \<Rightarrow> string
     \<Rightarrow> error option \<times> filesystem" where
  "save_response_with_steps ext self fsys prob_data response previous_code num_steps model' =
     (let output_dir' = output_dir self @ [model']
      in case mkdir_parents fsys output_dir' of
           Inl e \<Rightarrow> (Some e, fsys)
         | Inr fs1 \<Rightarrow>
             (let prob_id = problem_id prob_data;
                  output_file_path = output_dir' @ [prob_id @ ''.'' @ str_int num_steps @ ''.py''];
                  python_code = extract_python_script ext response
              in case write_text fs1 output_file_path (previous_code @ ''\<newline>'' @ python_code) of
                   Inl e \<Rightarrow> (Some e, fs1)
                 | Inr fs2 \<Rightarrow> (None, fs2)))"

subsection \<open>Prompt assembly (lines 99-135)\<close>

definition process_problem_code :: "problem \<Rightarrow> int \<Rightarrow> error + string" where
  "process_problem_code prob_data num_steps =
     (case py_index (sub_steps prob_data) (num_steps - 1) of
        Inl e \<Rightarrow> Inl e
      | Inr step \<Rightarrow> Inr (function_header step @ ''\<newline>\<newline>'' @ return_line step))"

text \<open>The loop of lines 111-114, over \<^verbatim>\<open>range(num_steps - 1)\<close>, with its two accumulators
  \<^verbatim>\<open>output_lines\<close> and \<^verbatim>\<open>previous_code\<close>.\<close>

fun process_loop ::
  "string option list \<Rightarrow> nat list \<Rightarrow> string option list \<times> string option list
     \<Rightarrow> error + (string option list \<times> string option list)" where
  "process_loop cache [] acc = Inr acc"
| "process_loop cache (i # is) (output_lines, previous_code) =
     (if i < length cache
      then process_loop cache is
             (output_lines @ [cache ! i, Some ''------''], previous_code @ [cache ! i])
      else Inl IndexError)"

definition process_problem_steps ::
  "Gencode \<Rightarrow> problem \<Rightarrow> int \<Rightarrow> error + (string \<times> string \<times> string)" where
  "process_problem_steps self problem_data num_steps =
     (case process_loop (previous_llm_code self) [0 ..< nat (num_steps - 1)] ([], []) of
        Inl e \<Rightarrow> Inl e
      | Inr (output_lines, previous_code) \<Rightarrow>
          (case py_index (sub_steps problem_data) (num_steps - 1) of
             Inl e \<Rightarrow> Inl e
           | Inr step \<Rightarrow>
               (case process_problem_code problem_data num_steps of
                  Inl e \<Rightarrow> Inl e
                | Inr code \<Rightarrow>
                    (let next_step = [Some (step_description_prompt step), Some code]
                     in case py_join ''\<newline>\<newline>'' (butlast output_lines) of
                          Inl e \<Rightarrow> Inl e
                        | Inr output_str \<Rightarrow>
                            (case py_join ''\<newline>\<newline>'' next_step of
                               Inl e \<Rightarrow> Inl e
                             | Inr next_step_str \<Rightarrow>
                                 (case py_join ''\<newline>'' previous_code of
                                    Inl e \<Rightarrow> Inl e
                                  | Inr previous_code_str \<Rightarrow>
                                      Inr (output_str, next_step_str, previous_code_str)))))))"

definition generate_prompt_with_steps ::
  "externals \<Rightarrow> Gencode \<Rightarrow> problem \<Rightarrow> int \<Rightarrow> string \<Rightarrow> error + (string \<times> string)" where
  "generate_prompt_with_steps ext self prob_data num_steps prompt_template =
     (case process_problem_steps self prob_data num_steps of
        Inl e \<Rightarrow> Inl e
      | Inr (problem_steps_str, next_step_str, previous_code_str) \<Rightarrow>
          (let dependencies = required_dependencies prob_data
           in if next_step_str = [] then Inl AssertionError
              else (case str_format ext prompt_template problem_steps_str next_step_str
                           dependencies of
                      None \<Rightarrow> Inl FormatError
                    | Some prompt \<Rightarrow>
                        Inr (prompt,
                             dependencies @ ''\<newline>'' @ previous_code_str @ ''\<newline>''))))"

subsection \<open>Generating one step (lines 41-97)\<close>

text \<open>The condition of lines 63-64, which the driver repeats at lines 188-189: the pairs
  of a problem and a 0-based step whose code comes from a file under \<^verbatim>\<open>eval/data\<close>.\<close>

definition fixture_override :: "string \<Rightarrow> nat \<Rightarrow> bool" where
  "fixture_override prob_id prev_step \<longleftrightarrow>
     (prob_id = ''13'' \<and> prev_step = 5) \<or> (prob_id = ''62'' \<and> prev_step = 0)
     \<or> (prob_id = ''76'' \<and> prev_step = 2)"

text \<open>The file a prior step is read from (lines 63-71).\<close>

definition prev_file_path :: "path \<Rightarrow> string \<Rightarrow> string \<Rightarrow> nat \<Rightarrow> path" where
  "prev_file_path out_dir model' prob_id prev_step =
     (if fixture_override prob_id prev_step
      then [''eval'', ''data'', prob_id @ ''.'' @ str_nat (prev_step + 1) @ ''.txt'']
      else out_dir @ [model', prob_id @ ''.'' @ str_nat (prev_step + 1) @ ''.py''])"

text \<open>The message of the exception of line 78.\<close>

definition ahead_message :: "string \<Rightarrow> int \<Rightarrow> nat \<Rightarrow> string" where
  "ahead_message prob_id num_steps prev_step =
     ''Generating '' @ prob_id @ '' step '' @ str_int num_steps @ '' ahead of step ''
       @ str_nat (prev_step + 1) @ ''.''"

text \<open>The loop of lines 61-78 over \<^verbatim>\<open>range(num_steps - 1)\<close>. It returns the cache as it is
  when the loop ends or raises.\<close>

fun resolve_loop ::
  "externals \<Rightarrow> filesystem \<Rightarrow> path \<Rightarrow> string \<Rightarrow> problem \<Rightarrow> int \<Rightarrow> nat list
     \<Rightarrow> string option list \<Rightarrow> error option \<times> string option list" where
  "resolve_loop ext fsys out_dir model' prob_data num_steps [] cache = (None, cache)"
| "resolve_loop ext fsys out_dir model' prob_data num_steps (prev_step # rest) cache =
     (if \<not> prev_step < length cache then (Some IndexError, cache)
      else if cache ! prev_step \<noteq> None
      then resolve_loop ext fsys out_dir model' prob_data num_steps rest cache
      else
        (let prob_id = problem_id prob_data;
             prev_file_path' = prev_file_path out_dir model' prob_id prev_step
         in if is_file fsys prev_file_path'
            then
              (case read_text fsys prev_file_path' of
                 Inl e \<Rightarrow> (Some e, cache)
               | Inr prev_file_content \<Rightarrow>
                   (if \<not> prev_step < length (sub_steps prob_data) then (Some IndexError, cache)
                    else
                      (case extract_function_name ext
                              (function_header (sub_steps prob_data ! prev_step)) of
                         None \<Rightarrow> (Some ExtractNameError, cache)
                       | Some func_name \<Rightarrow>
                           (let function_code =
                                  get_function_from_code ext prev_file_content func_name
                            in resolve_loop ext fsys out_dir model' prob_data num_steps rest
                                 (cache[prev_step := function_code])))))
            else (Some (Exception (ahead_message prob_id num_steps prev_step)), cache)))"

text \<open>The cache after the check of lines 56-60, before the loop starts.\<close>

definition reset_cache :: "string option list \<Rightarrow> int \<Rightarrow> int \<Rightarrow> string option list" where
  "reset_cache cache num_steps tot_steps =
     (if num_steps = 1 then replicate (nat tot_steps) None
      else if int (length cache) \<noteq> tot_steps then replicate (nat tot_steps) None
      else cache)"

text \<open>Lines 56-78: the resolution of the prior steps.\<close>

definition resolve_prior_steps ::
  "externals \<Rightarrow> filesystem \<Rightarrow> path \<Rightarrow> string \<Rightarrow> problem \<Rightarrow> int \<Rightarrow> int
     \<Rightarrow> string option list \<Rightarrow> error option \<times> string option list" where
  "resolve_prior_steps ext fsys out_dir model' prob_data num_steps tot_steps cache =
     (if num_steps = 1 then (None, reset_cache cache num_steps tot_steps)
      else resolve_loop ext fsys out_dir model' prob_data num_steps
             [0 ..< nat (num_steps - 1)] (reset_cache cache num_steps tot_steps))"

text \<open>Lines 83-86: the keyword arguments of the model client.\<close>

definition model_kwargs_of :: "string \<Rightarrow> real \<Rightarrow> model_kwargs" where
  "model_kwargs_of model' temp =
     (let model_kwargs0 = Map.empty;
          model_kwargs1 = (if sublist ''claude'' model'
                           then model_kwargs0(''max_tokens'' \<mapsto> IntArg 4096)
                           else model_kwargs0)
      in model_kwargs1(''temperature'' \<mapsto> FloatArg temp))"

text \<open>Lines 94-97: the model is called, its code goes to the cache slot of the step and
  the response file is written.\<close>

definition call_model_and_save ::
  "externals \<Rightarrow> Gencode \<Rightarrow> world \<Rightarrow> problem \<Rightarrow> int \<Rightarrow> string \<Rightarrow> model_kwargs \<Rightarrow> string
     \<Rightarrow> string \<Rightarrow> error option \<times> Gencode \<times> world" where
  "call_model_and_save ext self w prob_data num_steps model' model_kwargs' prompt previous_code =
     (let w1 = w\<lparr>calls := calls w @ [(model', model_kwargs', prompt)]\<rparr>
      in case get_model_function ext model' model_kwargs' prompt of
           None \<Rightarrow> (Some ModelClientError, self, w1)
         | Some response_from_llm \<Rightarrow>
             (case py_setitem (previous_llm_code self) (num_steps - 1)
                     (Some (extract_python_script ext response_from_llm)) of
                Inl e \<Rightarrow> (Some e, self, w1)
              | Inr cache' \<Rightarrow>
                  (let self' = self\<lparr>previous_llm_code := cache'\<rparr>;
                       (err, fs') = save_response_with_steps ext self' (fs w1) prob_data
                                      response_from_llm previous_code num_steps model'
                   in (err, self', w1\<lparr>fs := fs'\<rparr>))))"

definition generate_response_with_steps ::
  "externals \<Rightarrow> Gencode \<Rightarrow> world \<Rightarrow> problem \<Rightarrow> int \<Rightarrow> int \<Rightarrow> string \<Rightarrow> string \<Rightarrow> bool
     \<Rightarrow> error option \<times> Gencode \<times> world" where
  "generate_response_with_steps ext self w prob_data num_steps tot_steps model' prompt_template
       save =
     (let prob_id = problem_id prob_data;
          (err, cache) = resolve_prior_steps ext (fs w) (output_dir self) model' prob_data
                           num_steps tot_steps (previous_llm_code self);
          self1 = self\<lparr>previous_llm_code := cache\<rparr>
      in case err of
           Some e \<Rightarrow> (Some e, self1, w)
         | None \<Rightarrow>
             (case generate_prompt_with_steps ext self1 prob_data num_steps prompt_template of
                Inl e \<Rightarrow> (Some e, self1, w)
              | Inr (prompt, previous_code) \<Rightarrow>
                  (case (if save
                         then save_prompt_with_steps self1 (fs w) prob_data prompt num_steps
                                tot_steps
                         else (None, fs w)) of
                     (Some e, fs1) \<Rightarrow> (Some e, self1, w\<lparr>fs := fs1\<rparr>)
                   | (None, fs1) \<Rightarrow>
                       (let w1 = w\<lparr>fs := fs1\<rparr>;
                            model_kwargs' = model_kwargs_of model' (temperature self1);
                            output_file_path =
                              output_dir self1
                                @ [model', prob_id @ ''.'' @ str_int num_steps @ ''.py'']
                        in if \<not> path_exists fs1 output_file_path
                           then call_model_and_save ext self1 w1 prob_data num_steps model'
                                  model_kwargs' prompt previous_code
                           else (None, self1, w1)))))"

subsection \<open>The driver (lines 172-191)\<close>

text \<open>The inner loop over \<^verbatim>\<open>range(steps)\<close> and the outer loop over the problems. An
  exception of \<open>generate_response_with_steps\<close> is not caught: it ends both loops.
  The \<^verbatim>\<open>print\<close> of line 186 is left out.\<close>

fun steps_loop ::
  "externals \<Rightarrow> string \<Rightarrow> problem \<Rightarrow> nat list \<Rightarrow> Gencode \<Rightarrow> world
     \<Rightarrow> error option \<times> Gencode \<times> world" where
  "steps_loop ext model' problem' [] gcode w = (None, gcode, w)"
| "steps_loop ext model' problem' (i # is) gcode w =
     (let prob_id = problem_id problem';
          steps = int (length (sub_steps problem'))
      in if fixture_override prob_id i then steps_loop ext model' problem' is gcode w
         else
           (case generate_response_with_steps ext gcode w problem' (int i + 1) steps model'
                   (DEFAULT_PROMPT_TEMPLATE ext) True of
              (Some e, gcode', w') \<Rightarrow> (Some e, gcode', w')
            | (None, gcode', w') \<Rightarrow> steps_loop ext model' problem' is gcode' w'))"

fun problems_loop ::
  "externals \<Rightarrow> string \<Rightarrow> problem list \<Rightarrow> Gencode \<Rightarrow> world \<Rightarrow> error option \<times> Gencode \<times> world"
  where
  "problems_loop ext model' [] gcode w = (None, gcode, w)"
| "problems_loop ext model' (problem' # data) gcode w =
     (case steps_loop ext model' problem' [0 ..< length (sub_steps problem')] gcode w of
        (Some e, gcode', w') \<Rightarrow> (Some e, gcode', w')
      | (None, gcode', w') \<Rightarrow> problems_loop ext model' data gcode' w')"

definition main ::
  "externals \<Rightarrow> world \<Rightarrow> string \<Rightarrow> path \<Rightarrow> path \<Rightarrow> path \<Rightarrow> real
     \<Rightarrow> error option \<times> Gencode \<times> world" where
  "main ext w model' output_dir' input_path prompt_dir' temperature' =
     (let gcode = \<lparr>model = model', output_dir = output_dir', prompt_dir = prompt_dir',
                   temperature = temperature', previous_llm_code = []\<rparr>
      in case read_from_jsonl ext (fs w) input_path of
           None \<Rightarrow> (Some JsonlError, gcode, w)
         | Some data \<Rightarrow> problems_loop ext model' data gcode w)"

section \<open>The specification's wording\<close>

text \<open>The prior-steps text as the specification words it: the bodies joined with double
  newlines, the separator token between consecutive bodies and none after the last.\<close>

fun prior_steps_text :: "string list \<Rightarrow> string" where
  "prior_steps_text [] = []"
| "prior_steps_text [b] = b"
| "prior_steps_text (b # c # bs) =
     b @ ''\<newline>\<newline>'' @ ''------'' @ ''\<newline>\<newline>'' @ prior_steps_text (c # bs)"

text \<open>The next-step text as the specification words it: the description, a double
  newline, and the block made of the header, a blank line and the return line.\<close>

definition next_step_text :: "sub_step \<Rightarrow> string" where
  "next_step_text step =
     step_description_prompt step @ ''\<newline>\<newline>''
       @ (function_header step @ ''\<newline>'' @ [] @ ''\<newline>'' @ return_line step)"

text \<open>What lines 72-76 store in the slot of a prior step whose slot is unresolved: the
  function extracted from the step's source file. The outer \<open>None\<close> stands for the cases
  in which these lines raise.\<close>

definition source_body ::
  "externals \<Rightarrow> filesystem \<Rightarrow> path \<Rightarrow> string \<Rightarrow> problem \<Rightarrow> nat \<Rightarrow> string option option" where
  "source_body ext fsys out_dir model' prob_data prev_step =
     (case fsys (prev_file_path out_dir model' (problem_id prob_data) prev_step) of
        Some (File prev_file_content) \<Rightarrow>
          (if prev_step < length (sub_steps prob_data)
           then (case extract_function_name ext
                        (function_header (sub_steps prob_data ! prev_step)) of
                   Some func_name \<Rightarrow>
                     Some (get_function_from_code ext prev_file_content func_name)
                 | None \<Rightarrow> None)
           else None)
      | _ \<Rightarrow> None)"

text \<open>The Fixture Override Table of the specification, with 0-based steps.\<close>

definition fixture_override_table :: "(string \<times> nat) set" where
  "fixture_override_table = {(''13'', 5), (''62'', 0), (''76'', 2)}"

section \<open>Example inputs\<close>

text \<open>A template with the three named fields, and what \<^verbatim>\<open>str.format\<close> returns on it.
  The helpers of the example are simple stand-ins: every header names the function
  \<open>f\<close>, the function extractor returns the whole text, the model answers \<open>CODE\<close>.\<close>

definition example_template :: string where
  "example_template = ''{problem_steps_str}|{next_step_str}|{dependencies}''"

definition example_format :: "string \<Rightarrow> string \<Rightarrow> string \<Rightarrow> string \<Rightarrow> string option" where
  "example_format template problem_steps_str next_step_str dependencies =
     (if template = example_template
      then Some (problem_steps_str @ ''|'' @ next_step_str @ ''|'' @ dependencies)
      else None)"

definition example_externals :: "problem list \<Rightarrow> externals" where
  "example_externals data =
     \<lparr>extract_function_name = (\<lambda>header. Some ''f''),
      get_function_from_code = (\<lambda>text name. Some text),
      extract_python_script = (\<lambda>response. response),
      get_model_function = (\<lambda>m kw prompt. Some ''CODE''),
      str_format = example_format,
      read_from_jsonl = (\<lambda>fsys p. Some data),
      DEFAULT_PROMPT_TEMPLATE = example_template\<rparr>"

definition one_step_problem :: problem where
  "one_step_problem =
     \<lparr>problem_id = ''1'', required_dependencies = ''import numpy as np'',
      sub_steps = [\<lparr>step_description_prompt = ''Compute sum'',
                    function_header = ''def f(x):\<newline>    '' @ [CHR 0x27, CHR 0x27, CHR 0x27]
                      @ ''doc'' @ [CHR 0x27, CHR 0x27, CHR 0x27],
                    return_line = ''    return sum(x)''\<rparr>]\<rparr>"

definition example_gencode :: "string option list \<Rightarrow> Gencode" where
  "example_gencode cache =
     \<lparr>model = ''m'', output_dir = [''out''], prompt_dir = [''prompts''], temperature = 0,
      previous_llm_code = cache\<rparr>"

definition empty_step_problem :: problem where
  "empty_step_problem =
     \<lparr>problem_id = ''1'', required_dependencies = [],
      sub_steps = [\<lparr>step_description_prompt = [], function_header = [], return_line = []\<rparr>]\<rparr>"

definition three_step_problem :: problem where
  "three_step_problem =
     \<lparr>problem_id = ''7'', required_dependencies = ''import math'',
      sub_steps = [\<lparr>step_description_prompt = ''one'', function_header = ''def a():'',
                    return_line = ''    return 1''\<rparr>,
                   \<lparr>step_description_prompt = ''two'', function_header = ''def b():'',
                    return_line = ''    return 2''\<rparr>,
                   \<lparr>step_description_prompt = ''three'', function_header = ''def c():'',
                    return_line = ''    return 3''\<rparr>]\<rparr>"

text \<open>Helpers whose function extractor never finds the function, a world without files
  and a world holding the response file of step 1 of \<open>three_step_problem\<close>.\<close>

definition not_found_externals :: externals where
  "not_found_externals =
     (example_externals [])\<lparr>get_function_from_code := (\<lambda>text name. None)\<rparr>"

definition empty_world :: world where
  "empty_world = \<lparr>fs = Map.empty, calls = []\<rparr>"

definition step_one_world :: world where
  "step_one_world =
     \<lparr>fs = [[''out'', ''m'', ''7.1.py''] \<mapsto> File ''import math\<newline>\<newline>CODE''], calls = []\<rparr>"

text \<open>A two-step problem whose first step is in the Fixture Override Table.\<close>

definition fixture_problem :: problem where
  "fixture_problem =
     \<lparr>problem_id = ''62'', required_dependencies = ''import numpy'',
      sub_steps = [\<lparr>step_description_prompt = ''first'', function_header = ''def g():'',
                    return_line = ''    return 1''\<rparr>,
                   \<lparr>step_description_prompt = ''second'', function_header = ''def h():'',
                    return_line = ''    return 2''\<rparr>]\<rparr>"

text \<open>Two two-step problems processed one after the other, the second one with its
  first step in the Fixture Override Table; helpers whose model answers with the prompt
  it was given, between angle brackets; a world holding the fixture file of problem 62.\<close>

definition leak_problem_61 :: problem where
  "leak_problem_61 =
     \<lparr>problem_id = ''61'', required_dependencies = ''D61'',
      sub_steps = [\<lparr>step_description_prompt = ''a1'', function_header = ''h1'',
                    return_line = ''r1''\<rparr>,
                   \<lparr>step_description_prompt = ''a2'', function_header = ''h2'',
                    return_line = ''r2''\<rparr>]\<rparr>"

definition leak_problem_62 :: problem where
  "leak_problem_62 =
     \<lparr>problem_id = ''62'', required_dependencies = ''D62'',
      sub_steps = [\<lparr>step_description_prompt = ''b1'', function_header = ''k1'',
                    return_line = ''q1''\<rparr>,
                   \<lparr>step_description_prompt = ''b2'', function_header = ''k2'',
                    return_line = ''q2''\<rparr>]\<rparr>"

definition echo_externals :: "problem list \<Rightarrow> externals" where
  "echo_externals data =
     (example_externals data)\<lparr>get_model_function := (\<lambda>m kw prompt. Some (''<'' @ prompt @ ''>''))\<rparr>"

definition fixture_world :: world where
  "fixture_world = \<lparr>fs = [[''eval'', ''data'', ''62.1.txt''] \<mapsto> File ''FIXTURE''], calls = []\<rparr>"

text \<open>An orchestrator whose cache holds two bodies of an earlier problem; a world holding
  both the fixture file and a response file of step 1 of problem 62; a world in which
  only the response file of step 2 of \<open>three_step_problem\<close> exists.\<close>

definition stale_gencode :: Gencode where
  "stale_gencode = example_gencode [Some ''stale'', Some ''older'']"

definition both_world :: world where
  "both_world =
     \<lparr>fs = [[''eval'', ''data'', ''62.1.txt''] \<mapsto> File ''FIXTURE'',
             [''out'', ''m'', ''62.1.py''] \<mapsto> File ''GENERATED''],
      calls = []\<rparr>"


section \<open>Properties of prompt assembly\<close>

lemma process_loop_eq:
  "process_loop cache js (ol, pc) =
     (if \<forall>i\<in>set js. i < length cache
      then Inr (ol @ concat (map (\<lambda>i. [cache ! i, Some ''------'']) js), pc @ map ((!) cache) js)
      else Inl IndexError)"
  by (induction js arbitrary: ol pc) auto

lemma map_nth_take: "m \<le> length xs \<Longrightarrow> map ((!) xs) [0..<m] = take m xs"
  by (simp add: list_eq_iff_nth_eq)

lemma concat_pairs_take:
  "m \<le> length xs \<Longrightarrow> concat (map (\<lambda>i. [xs ! i, s]) [0..<m]) = concat (map (\<lambda>b. [b, s]) (take m xs))"
  by (simp add: map_nth_take [symmetric] comp_def)

lemma join_butlast_pairs:
  "join ''\<newline>\<newline>'' (butlast (concat (map (\<lambda>b. [b, ''------'']) bs))) = prior_steps_text bs"
  by (induction bs rule: prior_steps_text.induct) simp_all

lemma all_butlast_pairs:
  "list_all (\<lambda>x. x \<noteq> None) (butlast (concat (map (\<lambda>b. [b, Some s]) bs))) = list_all (\<lambda>x. x \<noteq> None) bs"
  by (induction bs rule: induct_list012) simp_all

lemma map_the_butlast_pairs:
  "map the (butlast (concat (map (\<lambda>b. [b, Some s]) bs))) = butlast (concat (map (\<lambda>b. [b, s]) (map the bs)))"
  by (induction bs rule: induct_list012) simp_all

lemma py_join_butlast_pairs:
  "py_join ''\<newline>\<newline>'' (butlast (concat (map (\<lambda>b. [b, Some ''------'']) bs))) =
     (if list_all (\<lambda>x. x \<noteq> None) bs then Inr (prior_steps_text (map the bs)) else Inl TypeError)"
  unfolding py_join_def
  by (simp only: all_butlast_pairs map_the_butlast_pairs join_butlast_pairs)

lemma py_join_all:
  "list_all (\<lambda>x. x \<noteq> None) xs \<Longrightarrow> py_join sep xs = Inr (join sep (map the xs))"
  by (simp add: py_join_def)

lemma py_join_two: "py_join sep [Some a, Some b] = Inr (a @ sep @ b)"
  by (simp add: py_join_def)

lemma all_upt_less: "(\<forall>i\<in>set [0..<m]. i < k) \<longleftrightarrow> m \<le> (k::nat)"
  by (auto simp: not_le [symmetric])

lemma process_loop_upt:
  "process_loop cache [0..<m] (ol, pc) =
     (if m \<le> length cache
      then Inr (ol @ concat (map (\<lambda>b. [b, Some ''------'']) (take m cache)), pc @ take m cache)
      else Inl IndexError)"
  unfolding process_loop_eq all_upt_less
  by (simp add: concat_pairs_take map_nth_take)

lemma process_problem_steps_eq:
  "process_problem_steps self prob n =
     (let m = nat (n - 1); cache = previous_llm_code self
      in if \<not> m \<le> length cache then Inl IndexError
         else case py_index (sub_steps prob) (n - 1) of
                Inl e \<Rightarrow> Inl e
              | Inr step \<Rightarrow>
                  if \<not> list_all (\<lambda>x. x \<noteq> None) (take m cache) then Inl TypeError
                  else Inr (prior_steps_text (map the (take m cache)),
                            step_description_prompt step @ ''\<newline>\<newline>''
                              @ function_header step @ ''\<newline>\<newline>'' @ return_line step,
                            join ''\<newline>'' (map the (take m cache))))"
proof -
  let ?m = "nat (n - 1)" and ?cache = "previous_llm_code self"
  show ?thesis
  proof (cases "?m \<le> length ?cache")
    case False
    then show ?thesis
      by (simp add: Let_def process_problem_steps_def process_loop_upt)
  next
    case le: True
    show ?thesis
    proof (cases "py_index (sub_steps prob) (n - 1)")
      case (Inl e)
      with le show ?thesis
        by (simp add: Let_def process_problem_steps_def process_loop_upt)
    next
      case (Inr step)
      show ?thesis
      proof (cases "list_all (\<lambda>x. x \<noteq> None) (take ?m ?cache)")
        case True
        with le Inr show ?thesis
          by (simp add: Let_def process_problem_steps_def process_loop_upt process_problem_code_def
              py_join_butlast_pairs py_join_two py_join_all [OF True])
      next
        case False
        with le Inr show ?thesis
          by (simp add: Let_def process_problem_steps_def process_loop_upt process_problem_code_def
              py_join_butlast_pairs)
      qed
    qed
  qed
qed



lemma generate_prompt_with_steps_eq:
  "generate_prompt_with_steps ext self prob n tmpl =
     (case process_problem_steps self prob n of
        Inl e \<Rightarrow> Inl e
      | Inr (problem_steps_str, next_step_str, previous_code_str) \<Rightarrow>
          (case str_format ext tmpl problem_steps_str next_step_str (required_dependencies prob) of
             None \<Rightarrow> Inl FormatError
           | Some prompt \<Rightarrow>
               Inr (prompt, required_dependencies prob @ ''\<newline>'' @ previous_code_str @ ''\<newline>'')))"
  by (auto simp: generate_prompt_with_steps_def process_problem_steps_eq Let_def
      split: sum.splits prod.splits option.splits if_splits)

text \<open>
  Claim C5. For a target step within the problem whose prior cache slots are all
  populated, \<open>process_problem_steps\<close> returns, as prior-steps text, the cached bodies of
  the steps before the target joined with double newlines and the separator \<open>------\<close>
  between consecutive bodies (none after the last), and, as next-step text, the step's
  description joined by a double newline with the header, a blank line and the return
  line.
\<close>

theorem process_problem_steps_sections:
  assumes "1 \<le> num_steps" and "num_steps \<le> int (length (sub_steps prob_data))"
    and "nat (num_steps - 1) \<le> length (previous_llm_code self)"
    and "list_all (\<lambda>slot. slot \<noteq> None) (take (nat (num_steps - 1)) (previous_llm_code self))"
  shows "\<exists>previous_code_str.
           process_problem_steps self prob_data num_steps =
             Inr (prior_steps_text (map the (take (nat (num_steps - 1)) (previous_llm_code self))),
                  next_step_text (sub_steps prob_data ! nat (num_steps - 1)),
                  previous_code_str)
           \<and> generate_prompt_with_steps ext self prob_data num_steps prompt_template =
               (case str_format ext prompt_template
                       (prior_steps_text
                          (map the (take (nat (num_steps - 1)) (previous_llm_code self))))
                       (next_step_text (sub_steps prob_data ! nat (num_steps - 1)))
                       (required_dependencies prob_data) of
                  None \<Rightarrow> Inl FormatError
                | Some prompt \<Rightarrow>
                    Inr (prompt,
                         required_dependencies prob_data @ ''\<newline>'' @ previous_code_str
                           @ ''\<newline>''))"
  using assms
  by (simp add: generate_prompt_with_steps_eq process_problem_steps_eq py_index_def
      next_step_text_def Let_def)

theorem process_problem_steps_sections_witness:
  "process_problem_steps (example_gencode [Some ''A'', Some ''B'', None]) three_step_problem 3 =
     Inr (''A\<newline>\<newline>------\<newline>\<newline>B'',
          ''three\<newline>\<newline>def c():\<newline>\<newline>    return 3'',
          ''A\<newline>B'')
   \<and> prior_steps_text [''A'', ''B''] = ''A\<newline>\<newline>------\<newline>\<newline>B''"
proof -
  let ?g = "example_gencode [Some ''A'', Some ''B'', None]"
  have h: "(1::int) \<le> 3" "3 \<le> int (length (sub_steps three_step_problem))"
    "nat (3 - 1) \<le> length (previous_llm_code ?g)"
    "list_all (\<lambda>slot. slot \<noteq> None) (take (nat (3 - 1)) (previous_llm_code ?g))"
    by (simp_all add: example_gencode_def three_step_problem_def eval_nat_numeral)
  have v: "map the (take (nat (3 - 1)) (previous_llm_code ?g)) = [''A'', ''B'']"
    "next_step_text (sub_steps three_step_problem ! nat (3 - 1)) =
       ''three\<newline>\<newline>def c():\<newline>\<newline>    return 3''"
    "prior_steps_text [''A'', ''B''] = ''A\<newline>\<newline>------\<newline>\<newline>B''"
    by (simp_all add: example_gencode_def three_step_problem_def next_step_text_def
        eval_nat_numeral)
  from process_problem_steps_sections [OF h, of "example_externals []" example_template]
  obtain previous_code_str where
    "process_problem_steps ?g three_step_problem 3 =
       Inr (''A\<newline>\<newline>------\<newline>\<newline>B'',
            ''three\<newline>\<newline>def c():\<newline>\<newline>    return 3'', previous_code_str)"
    and "generate_prompt_with_steps (example_externals []) ?g three_step_problem 3
           example_template =
         (case str_format (example_externals []) example_template
                 ''A\<newline>\<newline>------\<newline>\<newline>B''
                 ''three\<newline>\<newline>def c():\<newline>\<newline>    return 3''
                 (required_dependencies three_step_problem) of
            None \<Rightarrow> Inl FormatError
          | Some prompt \<Rightarrow>
              Inr (prompt, required_dependencies three_step_problem @ ''\<newline>''
                     @ previous_code_str @ ''\<newline>''))"
    unfolding v by blast
  moreover have "generate_prompt_with_steps (example_externals []) ?g three_step_problem 3
           example_template =
     Inr (''A\<newline>\<newline>------\<newline>\<newline>B|three\<newline>\<newline>def c():\<newline>\<newline>    return 3|import math'',
          ''import math\<newline>A\<newline>B\<newline>'')"
    by code_simp
  ultimately show ?thesis
    using v(3)
    by (simp add: example_externals_def example_format_def three_step_problem_def)
qed

text \<open>
  Claim C6, amended. The previous-code string returned by \<open>generate_prompt_with_steps\<close>
  is the required dependencies, a newline, the prior step bodies joined by newlines, and
  a final newline. For the one-step problem with dependencies \<open>import numpy as np\<close> it
  is that line followed by two newlines, not one.
\<close>

theorem previous_code_string:
  assumes "generate_prompt_with_steps ext self prob_data num_steps prompt_template =
             Inr (prompt, previous_code)"
  shows "previous_code =
           required_dependencies prob_data @ ''\<newline>''
             @ join ''\<newline>'' (map the (take (nat (num_steps - 1)) (previous_llm_code self)))
             @ ''\<newline>''"
  using assms
  by (auto simp: generate_prompt_with_steps_eq process_problem_steps_eq Let_def
      split: sum.splits option.splits if_splits)

theorem previous_code_string_witness:
  "generate_prompt_with_steps (example_externals [])
       (example_gencode [Some ''A'', Some ''B'', None]) three_step_problem 3 example_template =
     Inr (''A\<newline>\<newline>------\<newline>\<newline>B|three\<newline>\<newline>def c():\<newline>\<newline>    return 3|import math'',
          ''import math\<newline>A\<newline>B\<newline>'')"
  using previous_code_string [of "example_externals []"
      "example_gencode [Some ''A'', Some ''B'', None]" three_step_problem 3 example_template]
  by (simp add: generate_prompt_with_steps_eq process_problem_steps_eq Let_def py_index_def
      example_externals_def example_gencode_def three_step_problem_def example_format_def)

text \<open>The one-step scenario of claim C6 as stated: the string ends in two newlines.\<close>

theorem previous_code_one_step_counterexample:
  "generate_prompt_with_steps (example_externals []) (example_gencode [None]) one_step_problem 1
       example_template =
     Inr (''|Compute sum\<newline>\<newline>def f(x):\<newline>    '' @ [CHR 0x27, CHR 0x27, CHR 0x27]
            @ ''doc'' @ [CHR 0x27, CHR 0x27, CHR 0x27]
            @ ''\<newline>\<newline>    return sum(x)|import numpy as np'',
          ''import numpy as np\<newline>\<newline>'')
   \<and> ''import numpy as np\<newline>\<newline>'' \<noteq> ''import numpy as np\<newline>''"
  by (simp add: generate_prompt_with_steps_eq process_problem_steps_eq Let_def py_index_def
      example_externals_def example_gencode_def one_step_problem_def example_format_def)

text \<open>
  Claim C10. The assertion of line 130 never fires: whatever the strings of the
  sub-step are, the next-step string returned by \<open>process_problem_steps\<close> holds the two
  newlines that join its two components, so it is never empty, and
  \<open>generate_prompt_with_steps\<close> never raises \<open>AssertionError\<close>.
\<close>

theorem next_step_never_empty:
  "generate_prompt_with_steps ext self prob_data num_steps prompt_template \<noteq> Inl AssertionError
   \<and> (\<forall>output_str next_step_str previous_code_str.
        process_problem_steps self prob_data num_steps =
          Inr (output_str, next_step_str, previous_code_str)
        \<longrightarrow> sublist ''\<newline>\<newline>'' next_step_str \<and> next_step_str \<noteq> [])"
proof -
  have sub: "\<And>a b. sublist ''\<newline>\<newline>'' (a @ ''\<newline>\<newline>'' @ b)"
    by (rule sublist_appendI)
  have idx: "\<And>xs :: sub_step list. \<And>i. py_index xs i \<noteq> Inl AssertionError"
    by (simp add: py_index_def Let_def)
  show ?thesis
    using sub idx
    by (auto simp: generate_prompt_with_steps_eq process_problem_steps_eq Let_def
      split: sum.splits option.splits if_splits)
qed

theorem next_step_never_empty_witness:
  "process_problem_steps (example_gencode [None]) empty_step_problem 1 =
     Inr ([], ''\<newline>\<newline>\<newline>\<newline>'', [])
   \<and> sublist ''\<newline>\<newline>'' ''\<newline>\<newline>\<newline>\<newline>''
   \<and> generate_prompt_with_steps (example_externals []) (example_gencode [None])
        empty_step_problem 1 example_template = Inr (''|\<newline>\<newline>\<newline>\<newline>|'', ''\<newline>\<newline>'')"
  using next_step_never_empty [of "example_externals []" "example_gencode [None]"
      empty_step_problem 1 example_template]
  by (simp add: generate_prompt_with_steps_eq process_problem_steps_eq Let_def py_index_def
      example_externals_def example_gencode_def empty_step_problem_def example_format_def)

section \<open>Resolution of the prior steps\<close>

lemma str_nat_digits:
  "str_nat (Suc 0) = ''1''" "str_nat 1 = ''1''" "str_nat 2 = ''2''" "str_nat 3 = ''3''"
  "str_nat 6 = ''6''" "str_nat (Suc (Suc 0)) = ''2''"
  by code_simp+

lemma str_int_digits:
  "str_int 1 = ''1''" "str_int 2 = ''2''" "str_int 3 = ''3''"
  by (simp_all add: str_int_def str_nat_digits)

lemma resolve_loop_length:
  "resolve_loop ext fsys od m prob n js cache = (err, cache') \<Longrightarrow> length cache' = length cache"
  by (induction js arbitrary: cache)
     (auto simp: Let_def split: if_splits sum.splits option.splits)

lemma resolve_loop_frame:
  "resolve_loop ext fsys od m prob n js cache = (err, cache') \<Longrightarrow> j \<notin> set js
     \<Longrightarrow> cache' ! j = cache ! j"
  by (induction js arbitrary: cache)
     (auto simp: Let_def split: if_splits sum.splits option.splits)

lemma is_file_read_text:
  "is_file fsys p \<Longrightarrow> \<exists>content. fsys p = Some (File content) \<and> read_text fsys p = Inr content"
  by (auto simp: is_file_def read_text_def split: option.splits node.splits)

lemma resolve_loop_Cons_cases:
  assumes "resolve_loop ext fsys od m prob n (i # js) cache = (err, cache')"
  obtains
    (skip) "i < length cache" and "cache ! i \<noteq> None"
      and "resolve_loop ext fsys od m prob n js cache = (err, cache')"
  | (read) content name where "i < length cache" and "cache ! i = None"
      and "fsys (prev_file_path od m (problem_id prob) i) = Some (File content)"
      and "i < length (sub_steps prob)"
      and "extract_function_name ext (function_header (sub_steps prob ! i)) = Some name"
      and "resolve_loop ext fsys od m prob n js
             (cache[i := get_function_from_code ext content name]) = (err, cache')"
  | (raise) e where "err = Some e" and "cache' = cache"
proof (cases "i < length cache \<and> cache ! i = None
    \<and> is_file fsys (prev_file_path od m (problem_id prob) i)")
  case False
  with assms show ?thesis
    by (auto simp: Let_def split: if_splits intro: skip raise)
next
  case True
  then obtain content where
    c: "fsys (prev_file_path od m (problem_id prob) i) = Some (File content)"
       "read_text fsys (prev_file_path od m (problem_id prob) i) = Inr content"
    using is_file_read_text by blast
  with True assms show ?thesis
    by (auto simp: Let_def split: if_splits option.splits intro: read raise)
qed

lemma resolve_loop_keeps:
  "resolve_loop ext fsys od m prob n js cache = (err, cache') \<Longrightarrow> cache ! j \<noteq> None
     \<Longrightarrow> cache' ! j = cache ! j"
proof (induction js arbitrary: cache)
  case Nil
  then show ?case by simp
next
  case (Cons i js)
  from Cons.prems(1) show ?case
  proof (cases rule: resolve_loop_Cons_cases)
    case skip
    with Cons show ?thesis by blast
  next
    case (read content name)
    with Cons.prems(2) have "j \<noteq> i" by auto
    then have "cache[i := get_function_from_code ext content name] ! j = cache ! j"
      by simp
    with Cons.IH [OF read(6)] Cons.prems(2) show ?thesis by simp
  next
    case (raise e)
    then show ?thesis by simp
  qed
qed

lemma resolve_loop_visited:
  "resolve_loop ext fsys od m prob n js cache = (None, cache') \<Longrightarrow> j \<in> set js
     \<Longrightarrow> j < length cache \<and>
         (if cache ! j \<noteq> None then cache' ! j = cache ! j
          else source_body ext fsys od m prob j = Some (cache' ! j))"
proof (induction js arbitrary: cache)
  case Nil
  then show ?case by simp
next
  case (Cons i js)
  from Cons.prems(1) show ?case
  proof (cases rule: resolve_loop_Cons_cases)
    case skip
    show ?thesis
    proof (cases "j = i")
      case True
      with skip resolve_loop_keeps [OF skip(3), of j] show ?thesis by simp
    next
      case False
      with Cons.prems(2) have "j \<in> set js" by simp
      from Cons.IH [OF skip(3) this] show ?thesis .
    qed
  next
    case (read content name)
    let ?v = "get_function_from_code ext content name"
    have sb: "source_body ext fsys od m prob i = Some ?v"
      using read by (simp add: source_body_def)
    show ?thesis
    proof (cases "j = i")
      case True
      have "cache' ! i = ?v"
      proof (cases "i \<in> set js")
        case False
        from resolve_loop_frame [OF read(6) False] read(1) show ?thesis by simp
      next
        case in_js: True
        with True have "j \<in> set js" by simp
        from Cons.IH [OF read(6) this] True read(1) sb show ?thesis
          by (auto split: if_splits)
      qed
      with True read sb show ?thesis by simp
    next
      case False
      with Cons.prems(2) have "j \<in> set js" by simp
      from Cons.IH [OF read(6) this] False show ?thesis by simp
    qed
  next
    case (raise e)
    then show ?thesis by simp
  qed
qed

text \<open>
  Claim C4, amended. The resolution phase never writes slot \<open>i - 1\<close> or a later one: they
  keep the value they have after the check of lines 56-60, and the cache keeps its
  length. When the phase completes without raising, every slot \<open>0 .. i - 2\<close> is within
  the cache; a slot that was resolved keeps its body, and a slot that was unresolved
  holds what the function extractor returned for the step's source file, which is
  unresolved again when the extractor does not find the function. So all slots
  \<open>0 .. i - 2\<close> are populated afterwards provided the extractor always finds the function.
\<close>

theorem resolve_prior_steps_slots:
  assumes "resolve_prior_steps ext fsys od m prob n tot cache = (err, cache')"
  shows "length cache' = length (reset_cache cache n tot)
    \<and> (\<forall>j. nat (n - 1) \<le> j \<longrightarrow> cache' ! j = reset_cache cache n tot ! j)
    \<and> (err = None \<longrightarrow>
         (\<forall>j < nat (n - 1). j < length cache' \<and>
            (if reset_cache cache n tot ! j \<noteq> None
             then cache' ! j = reset_cache cache n tot ! j
             else source_body ext fsys od m prob j = Some (cache' ! j))))
    \<and> (err = None \<and> (\<forall>text name. get_function_from_code ext text name \<noteq> None) \<longrightarrow>
         (\<forall>j < nat (n - 1). cache' ! j \<noteq> None))"
proof (cases "n = 1")
  case True
  with assms show ?thesis
    by (simp add: resolve_prior_steps_def)
next
  case False
  let ?base = "reset_cache cache n tot"
  from False assms
  have loop: "resolve_loop ext fsys od m prob n [0 ..< nat (n - 1)] ?base = (err, cache')"
    by (simp add: resolve_prior_steps_def)
  have len: "length cache' = length ?base"
    using loop by (rule resolve_loop_length)
  have frame: "\<forall>j. nat (n - 1) \<le> j \<longrightarrow> cache' ! j = ?base ! j"
    using resolve_loop_frame [OF loop] by simp
  have visited: "\<forall>j < nat (n - 1). j < length cache' \<and>
            (if ?base ! j \<noteq> None then cache' ! j = ?base ! j
             else source_body ext fsys od m prob j = Some (cache' ! j))"
    if "err = None"
    using resolve_loop_visited [of ext fsys od m prob n "[0 ..< nat (n - 1)]" ?base cache']
      loop that len by simp
  have populated: "\<forall>j < nat (n - 1). cache' ! j \<noteq> None"
    if "err = None" and found: "\<forall>text name. get_function_from_code ext text name \<noteq> None"
  proof (intro allI impI)
    fix j assume "j < nat (n - 1)"
    with visited [OF that(1)]
    have "(if ?base ! j \<noteq> None then cache' ! j = ?base ! j
             else source_body ext fsys od m prob j = Some (cache' ! j))"
      by blast
    moreover have "v \<noteq> None" if "source_body ext fsys od m prob j = Some v" for v
      using that found
      by (auto simp: source_body_def split: if_splits option.splits node.splits)
    ultimately show "cache' ! j \<noteq> None"
      by (auto split: if_splits)
  qed
  from len frame visited populated show ?thesis by blast
qed

theorem resolve_prior_steps_slots_witness:
  "resolve_prior_steps (example_externals []) (fs step_one_world) [''out''] ''m''
       three_step_problem 2 3 [] = (None, [Some ''import math\<newline>\<newline>CODE'', None, None])
   \<and> source_body (example_externals []) (fs step_one_world) [''out''] ''m'' three_step_problem 0
       = Some (Some ''import math\<newline>\<newline>CODE'')"
  using resolve_prior_steps_slots [of "example_externals []" "fs step_one_world" "[''out'']" "''m''"
      three_step_problem 2 3 "[]" None "[Some ''import math\<newline>\<newline>CODE'', None, None]"]
  by (simp add: resolve_prior_steps_def reset_cache_def prev_file_path_def fixture_override_def
      is_file_def read_text_def step_one_world_def three_step_problem_def source_body_def
      example_externals_def str_nat_digits eval_nat_numeral Let_def)


text \<open>Claim C4 as stated fails when the extractor does not find the function: resolution
  for step 2 completes and leaves slot 0 unresolved.\<close>

theorem resolve_prior_steps_not_found_counterexample:
  "resolve_prior_steps not_found_externals (fs step_one_world) [''out''] ''m'' three_step_problem
       2 3 [] = (None, [None, None, None])"
  by (simp add: resolve_prior_steps_def reset_cache_def prev_file_path_def fixture_override_def
      is_file_def read_text_def step_one_world_def three_step_problem_def not_found_externals_def
      example_externals_def str_nat_digits eval_nat_numeral Let_def)

lemma resolve_loop_append:
  "resolve_loop ext fsys od m prob n (xs @ ys) cache =
     (case resolve_loop ext fsys od m prob n xs cache of
        (Some e, cache') \<Rightarrow> (Some e, cache')
      | (None, cache') \<Rightarrow> resolve_loop ext fsys od m prob n ys cache')"
  by (induction xs arbitrary: cache)
     (auto simp: Let_def split: sum.splits option.splits prod.splits)

lemma resolve_loop_missing:
  assumes "j < length cache" and "cache ! j = None"
    and "\<not> is_file fsys (prev_file_path od m (problem_id prob) j)"
  shows "resolve_loop ext fsys od m prob n (j # rest) cache =
           (Some (Exception (ahead_message (problem_id prob) n j)), cache)"
  using assms by (simp add: Let_def)

section \<open>Raising, resetting and fixture files\<close>

lemma steps_loop_append:
  "steps_loop ext m prob (xs @ ys) g w =
     (case steps_loop ext m prob xs g w of
        (Some e, g', w') \<Rightarrow> (Some e, g', w')
      | (None, g', w') \<Rightarrow> steps_loop ext m prob ys g' w')"
  by (induction xs arbitrary: g w)
     (auto simp: Let_def split: option.splits prod.splits)

lemma steps_loop_raise:
  "\<not> fixture_override (problem_id p) i \<Longrightarrow>
   generate_response_with_steps ext g w p (int i + 1) (int (length (sub_steps p))) m
     (DEFAULT_PROMPT_TEMPLATE ext) True = (Some e, g', w') \<Longrightarrow>
   steps_loop ext m p (i # rest) g w = (Some e, g', w')"
  by simp

text \<open>
  Claim C2, amended. Let \<open>i > 1\<close> be the target step and \<open>j < i - 1\<close> the first prior step
  at which resolution finds the slot unresolved and the source file missing: resolution
  of the steps before \<open>j\<close> completes, the slot of \<open>j\<close> is unresolved and the file of
  \<open>j\<close> (the fixture file for a pair of the Fixture Override Table, the response file
  otherwise) is not a regular file, which is the case when it does not exist. Then
  \<open>generate_response_with_steps\<close> raises the exception of line 78 whose message names
  step \<open>j + 1\<close>, nothing is written to the files and no model is called; in the
  driver the exception ends the run: the remaining steps and problems are not processed.
\<close>

theorem missing_prior_step_raises:
  assumes "1 < n" and "j < nat (n - 1)"
    and "resolve_loop ext (fs w) (output_dir self) m prob n [0 ..< j]
           (reset_cache (previous_llm_code self) n tot) = (None, cache_j)"
    and "j < length cache_j" and "cache_j ! j = None"
    and "\<not> is_file (fs w) (prev_file_path (output_dir self) m (problem_id prob) j)"
  shows "generate_response_with_steps ext self w prob n tot m tmpl save =
           (Some (Exception (''Generating '' @ problem_id prob @ '' step '' @ str_int n
                     @ '' ahead of step '' @ str_nat (j + 1) @ ''.'')),
            self\<lparr>previous_llm_code := cache_j\<rparr>, w)
    \<and> (\<forall>pre rest data gcode0 w0.
          steps_loop ext m prob pre gcode0 w0 = (None, self, w)
          \<and> pre @ nat (n - 1) # rest = [0 ..< length (sub_steps prob)]
          \<and> tot = int (length (sub_steps prob))
          \<and> \<not> fixture_override (problem_id prob) (nat (n - 1))
          \<longrightarrow> problems_loop ext m (prob # data) gcode0 w0 =
                (Some (Exception (''Generating '' @ problem_id prob @ '' step '' @ str_int n
                     @ '' ahead of step '' @ str_nat (j + 1) @ ''.'')),
                 self\<lparr>previous_llm_code := cache_j\<rparr>, w))"
proof -
  let ?E = "Exception (''Generating '' @ problem_id prob @ '' step '' @ str_int n
                     @ '' ahead of step '' @ str_nat (j + 1) @ ''.'')"
  let ?base = "reset_cache (previous_llm_code self) n tot"
  from assms(2) have upt: "[0 ..< nat (n - 1)] = [0 ..< j] @ j # [Suc j ..< nat (n - 1)]"
    by (metis le0 upt_add_eq_append upt_conv_Cons le_add_diff_inverse less_imp_le_nat add_0)
  have "resolve_loop ext (fs w) (output_dir self) m prob n [0 ..< nat (n - 1)] ?base =
          (Some ?E, cache_j)"
    unfolding upt resolve_loop_append assms(3)
    using resolve_loop_missing [OF assms(4,5,6), of ext n]
    by (simp add: ahead_message_def)
  with assms(1)
  have res: "resolve_prior_steps ext (fs w) (output_dir self) m prob n tot (previous_llm_code self)
               = (Some ?E, cache_j)"
    by (simp add: resolve_prior_steps_def)
  have gen: "generate_response_with_steps ext self w prob n tot m tmpl save =
           (Some ?E, self\<lparr>previous_llm_code := cache_j\<rparr>, w)" for tmpl save
    by (simp add: generate_response_with_steps_def res)
  have drv: "problems_loop ext m (prob # data) gcode0 w0 =
                (Some ?E, self\<lparr>previous_llm_code := cache_j\<rparr>, w)"
    if pre: "steps_loop ext m prob pre gcode0 w0 = (None, self, w)"
      and split: "pre @ nat (n - 1) # rest = [0 ..< length (sub_steps prob)]"
      and tot: "tot = int (length (sub_steps prob))"
      and nf: "\<not> fixture_override (problem_id prob) (nat (n - 1))"
    for pre rest data gcode0 w0
  proof -
    from assms(1) have n: "n = int (nat (n - 1)) + 1" by simp
    have "generate_response_with_steps ext self w prob (int (nat (n - 1)) + 1)
            (int (length (sub_steps prob))) m (DEFAULT_PROMPT_TEMPLATE ext) True =
            (Some ?E, self\<lparr>previous_llm_code := cache_j\<rparr>, w)"
      using gen [of "DEFAULT_PROMPT_TEMPLATE ext" True] n tot by metis
    from steps_loop_raise [OF nf this]
    have "steps_loop ext m prob (nat (n - 1) # rest) self w =
            (Some ?E, self\<lparr>previous_llm_code := cache_j\<rparr>, w)" .
    then have "steps_loop ext m prob (pre @ nat (n - 1) # rest) gcode0 w0 =
            (Some ?E, self\<lparr>previous_llm_code := cache_j\<rparr>, w)"
      by (simp add: steps_loop_append pre)
    then show ?thesis
      by (simp add: split)
  qed
  from gen drv show ?thesis by blast
qed


theorem missing_prior_step_raises_witness:
  "generate_response_with_steps (example_externals []) (example_gencode []) empty_world
       fixture_problem 2 2 ''m'' example_template True =
     (Some (Exception ''Generating 62 step 2 ahead of step 1.''),
      example_gencode [None, None], empty_world)
   \<and> problems_loop (example_externals []) ''m'' [fixture_problem, three_step_problem]
       (example_gencode []) empty_world =
     (Some (Exception ''Generating 62 step 2 ahead of step 1.''),
      example_gencode [None, None], empty_world)"
proof -
  let ?ext = "example_externals []" and ?g = "example_gencode []"
  have base: "reset_cache (previous_llm_code ?g) 2 2 = [None, None]"
    by (simp add: reset_cache_def example_gencode_def eval_nat_numeral)
  have h3: "resolve_loop ?ext (fs empty_world) (output_dir ?g) ''m'' fixture_problem 2 [0 ..< 0]
           (reset_cache (previous_llm_code ?g) 2 2) = (None, [None, None])"
    by (simp add: base)
  have h6: "\<not> is_file (fs empty_world)
             (prev_file_path (output_dir ?g) ''m'' (problem_id fixture_problem) 0)"
    by (simp add: is_file_def empty_world_def)
  have upd: "?g\<lparr>previous_llm_code := [None, None]\<rparr> = example_gencode [None, None]"
    by (simp add: example_gencode_def)
  have msg: "''Generating '' @ problem_id fixture_problem @ '' step '' @ str_int 2
               @ '' ahead of step '' @ str_nat (0 + 1) @ ''.''
             = ''Generating 62 step 2 ahead of step 1.''"
    by (simp add: fixture_problem_def str_int_digits str_nat_digits)
  have h1: "(1::int) < 2" and h2: "0 < nat (2 - 1)"
    and h4: "0 < length [None :: string option, None]"
    and h5: "[None :: string option, None] ! 0 = None"
    by simp_all
  note T = missing_prior_step_raises [of 2 0 ?ext empty_world ?g "''m''" fixture_problem 2
      "[None, None]" example_template True, OF h1 h2 h3 h4 h5 h6, unfolded msg upd]
  have pre: "steps_loop ?ext ''m'' fixture_problem [0] ?g empty_world = (None, ?g, empty_world)"
    by (simp add: fixture_override_def fixture_problem_def)
  have split: "[0] @ nat (2 - 1) # [] = [0 ..< length (sub_steps fixture_problem)]"
    by (simp add: fixture_problem_def upt_rec)
  have tot: "2 = int (length (sub_steps fixture_problem))"
    by (simp add: fixture_problem_def)
  have nf: "\<not> fixture_override (problem_id fixture_problem) (nat (2 - 1))"
    by (simp add: fixture_override_def fixture_problem_def)
  from T have gen: "generate_response_with_steps ?ext ?g empty_world fixture_problem 2 2 ''m''
       example_template True =
     (Some (Exception ''Generating 62 step 2 ahead of step 1.''),
      example_gencode [None, None], empty_world)"
    by (rule conjunct1)
  from T have "\<forall>pre rest data gcode0 w0.
          steps_loop ?ext ''m'' fixture_problem pre gcode0 w0 = (None, ?g, empty_world)
          \<and> pre @ nat (2 - 1) # rest = [0 ..< length (sub_steps fixture_problem)]
          \<and> 2 = int (length (sub_steps fixture_problem))
          \<and> \<not> fixture_override (problem_id fixture_problem) (nat (2 - 1))
          \<longrightarrow> problems_loop ?ext ''m'' (fixture_problem # data) gcode0 w0 =
                (Some (Exception ''Generating 62 step 2 ahead of step 1.''),
                 example_gencode [None, None], empty_world)"
    by (rule conjunct2)
  with pre split tot nf
  have drv: "problems_loop ?ext ''m'' (fixture_problem # [three_step_problem]) ?g empty_world =
     (Some (Exception ''Generating 62 step 2 ahead of step 1.''),
      example_gencode [None, None], empty_world)"
    by blast
  from gen drv show ?thesis by simp
qed

text \<open>Claim C2 as stated fails when two prior steps are missing: for target step 3 the
  slot of prior step \<open>j = 1\<close> is unresolved and its file does not exist, but the message
  names step 1, not step \<open>j + 1 = 2\<close>.\<close>

theorem missing_prior_step_counterexample:
  "reset_cache (previous_llm_code (example_gencode [])) 3 3 ! 1 = None
   \<and> fs empty_world (prev_file_path (output_dir (example_gencode [])) ''m''
        (problem_id three_step_problem) 1) = None
   \<and> generate_response_with_steps (example_externals []) (example_gencode []) empty_world
       three_step_problem 3 3 ''m'' example_template True =
     (Some (Exception ''Generating 7 step 3 ahead of step 1.''),
      example_gencode [None, None, None], empty_world)
   \<and> ahead_message (problem_id three_step_problem) 3 1 = ''Generating 7 step 3 ahead of step 2.''
   \<and> ''Generating 7 step 3 ahead of step 1.'' \<noteq> ''Generating 7 step 3 ahead of step 2.''"
  by (simp add: generate_response_with_steps_def resolve_prior_steps_def reset_cache_def
      is_file_def empty_world_def example_gencode_def three_step_problem_def ahead_message_def
      str_int_digits str_nat_digits eval_nat_numeral upt_rec [of 0] Let_def)

section \<open>Files written by one step\<close>







lemma resolve_prior_steps_frame:
  assumes "resolve_prior_steps ext fsys od m prob n tot cache = (err, cache')"
    and "nat (n - 1) \<le> j"
  shows "cache' ! j = reset_cache cache n tot ! j"
proof (cases "n = 1")
  case True
  with assms show ?thesis by (simp add: resolve_prior_steps_def)
next
  case False
  with assms(1)
  have "resolve_loop ext fsys od m prob n [0 ..< nat (n - 1)] (reset_cache cache n tot)
          = (err, cache')"
    by (simp add: resolve_prior_steps_def)
  from resolve_loop_frame [OF this, of j] assms(2) show ?thesis by simp
qed

lemma call_model_and_save_calls:
  "call_model_and_save ext self w prob n m kw prompt previous_code = (err, self', w')
     \<Longrightarrow> calls w' = calls w @ [(m, kw, prompt)]"
  by (auto simp: call_model_and_save_def Let_def
      split: option.splits sum.splits prod.splits)

lemma model_kwargs_of_props:
  "model_kwargs_of m t ''temperature'' = Some (FloatArg t)"
  "model_kwargs_of m t ''max_tokens'' = (if sublist ''claude'' m then Some (IntArg 4096) else None)"
  "dom (model_kwargs_of m t) \<subseteq> {''temperature'', ''max_tokens''}"
  by (auto simp: model_kwargs_of_def Let_def split: if_splits)

text \<open>
  Claim C8. A call of \<open>generate_response_with_steps\<close> invokes the model client at most once,
  for the model identifier it was given. The keyword arguments of that invocation hold
  \<open>temperature\<close>, set to the temperature of the orchestrator, hold \<open>max_tokens\<close>, set
  to 4096, exactly when the model identifier contains \<open>claude\<close>, and hold nothing else.
\<close>

theorem model_client_configuration:
  assumes "generate_response_with_steps ext self w prob n tot m tmpl save = (err, self', w')"
  shows "(sublist ''claude'' m \<longleftrightarrow> (\<exists>ps ss. m = ps @ ''claude'' @ ss))
    \<and> (calls w' = calls w
        \<or> (\<exists>prompt kw.
              calls w' = calls w @ [(m, kw, prompt)]
              \<and> kw ''temperature'' = Some (FloatArg (temperature self))
              \<and> (sublist ''claude'' m \<longrightarrow> kw ''max_tokens'' = Some (IntArg 4096))
              \<and> (\<not> sublist ''claude'' m \<longrightarrow> kw ''max_tokens'' = None)
              \<and> dom kw \<subseteq> {''temperature'', ''max_tokens''}))"
proof -
  have "calls w' = calls w
        \<or> (\<exists>prompt. calls w' = calls w @ [(m, model_kwargs_of m (temperature self), prompt)])"
    using assms
    by (auto simp: generate_response_with_steps_def Let_def
        split: prod.splits option.splits sum.splits if_splits
        dest!: call_model_and_save_calls)
  then show ?thesis
    using model_kwargs_of_props [of m "temperature self"]
    by (auto simp: sublist_def)
qed

theorem model_client_configuration_witness:
  "(\<exists>prompt kw.
      calls (snd (snd (generate_response_with_steps (example_externals []) (example_gencode [])
        empty_world one_step_problem 1 1 ''claude-3'' example_template True)))
        = [(''claude-3'', kw, prompt)]
      \<and> kw ''temperature'' = Some (FloatArg 0) \<and> kw ''max_tokens'' = Some (IntArg 4096))
   \<and> (\<exists>prompt kw.
      calls (snd (snd (generate_response_with_steps (example_externals []) (example_gencode [])
        empty_world one_step_problem 1 1 ''gpt-4o'' example_template True)))
        = [(''gpt-4o'', kw, prompt)]
      \<and> kw ''temperature'' = Some (FloatArg 0) \<and> kw ''max_tokens'' = None)"
proof -
  let ?run = "\<lambda>m. generate_response_with_steps (example_externals []) (example_gencode [])
        empty_world one_step_problem 1 1 m example_template True"
  have len: "length (calls (snd (snd (?run ''claude-3'')))) = 1"
    "length (calls (snd (snd (?run ''gpt-4o'')))) = 1"
    by code_simp+
  have sub: "sublist ''claude'' ''claude-3''" "\<not> sublist ''claude'' ''gpt-4o''"
    by code_simp+
  have st: "calls empty_world = []" "temperature (example_gencode []) = 0"
    by (simp_all add: empty_world_def example_gencode_def)
  from len st have called: "calls (snd (snd (?run ''claude-3''))) \<noteq> calls empty_world"
    "calls (snd (snd (?run ''gpt-4o''))) \<noteq> calls empty_world"
    by auto
  from model_client_configuration [of "example_externals []" "example_gencode []" empty_world
      one_step_problem 1 1 "''claude-3''" example_template True
      "fst (?run ''claude-3'')" "fst (snd (?run ''claude-3''))" "snd (snd (?run ''claude-3''))"]
    called(1) sub(1)
  have a: "\<exists>prompt kw.
      calls (snd (snd (?run ''claude-3''))) = [(''claude-3'', kw, prompt)]
      \<and> kw ''temperature'' = Some (FloatArg 0) \<and> kw ''max_tokens'' = Some (IntArg 4096)"
    unfolding st by (simp only: prod.collapse append_Nil) blast
  from model_client_configuration [of "example_externals []" "example_gencode []" empty_world
      one_step_problem 1 1 "''gpt-4o''" example_template True
      "fst (?run ''gpt-4o'')" "fst (snd (?run ''gpt-4o''))" "snd (snd (?run ''gpt-4o''))"]
    called(2) sub(2)
  have b: "\<exists>prompt kw.
      calls (snd (snd (?run ''gpt-4o''))) = [(''gpt-4o'', kw, prompt)]
      \<and> kw ''temperature'' = Some (FloatArg 0) \<and> kw ''max_tokens'' = None"
    unfolding st by (simp only: prod.collapse append_Nil) blast
  from a b show ?thesis by blast
qed

text \<open>
  Claim C3 does not hold of the driver. Problem 62 is processed after problem 61,
  both with two steps. The driver skips step 1 of problem 62, so the first call for it
  has target step 2; the cache has the length of the step count, so it is not reset, and
  slot 0 still holds the body that the model gave for step 1 of problem 61. The prompt
  written for step 2 of problem 62 starts with that body. Processed alone, problem 62
  gets the body of the fixture file there.
\<close>

theorem stale_cache_leak:
  "(case main (echo_externals [leak_problem_61, leak_problem_62]) fixture_world ''m'' [''out'']
          [''in''] [''prompts''] 0 of
      (err, gcode, w') \<Rightarrow>
        err = None
        \<and> previous_llm_code gcode ! 0 = Some ''<|a1\<newline>\<newline>h1\<newline>\<newline>r1|D61>''
        \<and> fs w' [''prompts'', ''m'', ''62.2.txt''] =
            Some (File ''<|a1\<newline>\<newline>h1\<newline>\<newline>r1|D61>|b2\<newline>\<newline>k2\<newline>\<newline>q2|D62''))
   \<and> (case main (echo_externals [leak_problem_62]) fixture_world ''m'' [''out''] [''in'']
            [''prompts''] 0 of
        (err, gcode, w') \<Rightarrow>
          err = None
          \<and> fs w' [''prompts'', ''m'', ''62.2.txt''] =
              Some (File ''FIXTURE|b2\<newline>\<newline>k2\<newline>\<newline>q2|D62''))"
  by code_simp

section \<open>The cache after the reset\<close>

lemma resolve_loop_origin:
  "resolve_loop ext fsys od m prob n js cache = (err, cache') \<Longrightarrow> j < length cache
     \<Longrightarrow> cache' ! j = cache ! j \<or> source_body ext fsys od m prob j = Some (cache' ! j)"
proof (induction js arbitrary: cache)
  case Nil
  then show ?case by simp
next
  case (Cons i js)
  from Cons.prems(1) show ?case
  proof (cases rule: resolve_loop_Cons_cases)
    case skip
    from Cons.IH [OF skip(3) Cons.prems(2)] show ?thesis .
  next
    case (read content name)
    let ?v = "get_function_from_code ext content name"
    have sb: "source_body ext fsys od m prob i = Some ?v"
      using read by (simp add: source_body_def)
    from Cons.prems(2) have "j < length (cache[i := ?v])" by simp
    from Cons.IH [OF read(6) this]
    have "cache' ! j = cache[i := ?v] ! j \<or> source_body ext fsys od m prob j = Some (cache' ! j)" .
    with sb Cons.prems(2) show ?thesis
      by (cases "j = i") auto
  next
    case (raise e)
    then show ?thesis by simp
  qed
qed

lemma resolve_prior_steps_origin:
  assumes "resolve_prior_steps ext fsys od m prob n tot cache = (err, cache')"
    and "j < length (reset_cache cache n tot)"
  shows "length cache' = length (reset_cache cache n tot)
    \<and> (cache' ! j = reset_cache cache n tot ! j
        \<or> (j < nat (n - 1) \<and> source_body ext fsys od m prob j = Some (cache' ! j)))"
proof (cases "n = 1")
  case True
  with assms show ?thesis by (simp add: resolve_prior_steps_def)
next
  case False
  with assms(1)
  have loop: "resolve_loop ext fsys od m prob n [0 ..< nat (n - 1)] (reset_cache cache n tot)
          = (err, cache')"
    by (simp add: resolve_prior_steps_def)
  show ?thesis
  proof (cases "j < nat (n - 1)")
    case True
    with resolve_loop_origin [OF loop assms(2)] resolve_loop_length [OF loop] show ?thesis
      by simp
  next
    case False
    with resolve_loop_frame [OF loop, of j] resolve_loop_length [OF loop] show ?thesis
      by simp
  qed
qed

lemma call_model_and_save_cache:
  assumes "call_model_and_save ext self w prob n m kw prompt previous_code = (err, self', w')"
  shows "self' = self
    \<or> (\<exists>resp cache'. get_model_function ext m kw prompt = Some resp
          \<and> py_setitem (previous_llm_code self) (n - 1) (Some (extract_python_script ext resp))
               = Inr cache'
          \<and> self' = self\<lparr>previous_llm_code := cache'\<rparr>)"
  using assms
  by (auto simp: call_model_and_save_def Let_def split: option.splits sum.splits prod.splits)

lemma generate_response_cache:
  assumes "generate_response_with_steps ext self w prob n tot m tmpl save = (err, self', w')"
  obtains rerr c where
    "resolve_prior_steps ext (fs w) (output_dir self) m prob n tot (previous_llm_code self)
       = (rerr, c)"
    and "self' = self\<lparr>previous_llm_code := c\<rparr>
      \<or> (\<exists>kw prompt resp c'. get_model_function ext m kw prompt = Some resp
            \<and> py_setitem c (n - 1) (Some (extract_python_script ext resp)) = Inr c'
            \<and> self' = self\<lparr>previous_llm_code := c'\<rparr>)"
proof -
  obtain rerr c where
    res: "resolve_prior_steps ext (fs w) (output_dir self) m prob n tot (previous_llm_code self)
            = (rerr, c)"
    by (cases "resolve_prior_steps ext (fs w) (output_dir self) m prob n tot
                 (previous_llm_code self)")
  let ?self1 = "self\<lparr>previous_llm_code := c\<rparr>"
  have shape: "self' = ?self1
      \<or> (\<exists>kw prompt pc w1.
            call_model_and_save ext ?self1 w1 prob n m kw prompt pc = (err, self', w'))"
    using assms res
    by (auto simp: generate_response_with_steps_def Let_def
        split: prod.splits option.splits sum.splits if_splits)
  have "self' = self\<lparr>previous_llm_code := c\<rparr>
      \<or> (\<exists>kw prompt resp c'. get_model_function ext m kw prompt = Some resp
            \<and> py_setitem c (n - 1) (Some (extract_python_script ext resp)) = Inr c'
            \<and> self' = self\<lparr>previous_llm_code := c'\<rparr>)"
  proof (cases "self' = ?self1")
    case True
    then show ?thesis by simp
  next
    case False
    with shape obtain kw prompt pc w1 where
      "call_model_and_save ext ?self1 w1 prob n m kw prompt pc = (err, self', w')"
      by blast
    from call_model_and_save_cache [OF this] False
    obtain resp cache' where "get_model_function ext m kw prompt = Some resp"
      and "py_setitem c (n - 1) (Some (extract_python_script ext resp)) = Inr cache'"
      and "self' = self\<lparr>previous_llm_code := cache'\<rparr>"
      by auto
    then show ?thesis by blast
  qed
  with res show ?thesis by (rule that)
qed

lemma py_setitem_nonneg:
  "0 \<le> i \<Longrightarrow> py_setitem xs i v = Inr ys \<Longrightarrow> nat i < length xs \<and> ys = xs[nat i := v]"
  by (auto simp: py_setitem_def Let_def split: if_splits)


lemma nth_replicate_None: "j < k \<Longrightarrow> replicate k (None :: string option) ! j = None"
  by simp

text \<open>
  Claim C7. Called with target step 1, or with a target step above 1 while the length
  of the cache differs from the total step count, \<open>generate_response_with_steps\<close> resets
  the cache before resolution begins. Whatever the cache held, and whether the call
  returns or raises, afterwards the cache has as many slots as the total step count, and
  every slot is unresolved, or holds the function read from the source file of its step
  (a slot before the target), or holds the code of the model's response in this call (the
  slot of the target). For target step 1 the cache is all unresolved, but for the slot of
  step 1 when the model was called. The call behaves as on a cache of that many
  unresolved slots.
\<close>

theorem cache_reset:
  assumes "0 \<le> tot"
    and "n = 1 \<or> (1 < n \<and> int (length (previous_llm_code self)) \<noteq> tot)"
    and "generate_response_with_steps ext self w prob n tot m tmpl save = (err, self', w')"
  shows "int (length (previous_llm_code self')) = tot
    \<and> (\<forall>j < nat tot.
          previous_llm_code self' ! j = None
          \<or> (j < nat (n - 1)
              \<and> source_body ext (fs w) (output_dir self) m prob j
                    = Some (previous_llm_code self' ! j))
          \<or> (j = nat (n - 1)
              \<and> (\<exists>kw prompt resp.
                    get_model_function ext m kw prompt = Some resp
                    \<and> previous_llm_code self' ! j = Some (extract_python_script ext resp))))
    \<and> (n = 1 \<longrightarrow>
          previous_llm_code self' = replicate (nat tot) None
          \<or> (\<exists>kw prompt resp.
                get_model_function ext m kw prompt = Some resp
                \<and> previous_llm_code self' =
                    (replicate (nat tot) None)[0 := Some (extract_python_script ext resp)]))
    \<and> generate_response_with_steps ext (self\<lparr>previous_llm_code := replicate (nat tot) None\<rparr>)
          w prob n tot m tmpl save = (err, self', w')"
proof -
  let ?fresh = "replicate (nat tot) (None :: string option)"
  have r: "reset_cache (previous_llm_code self) n tot = ?fresh"
    using assms(2) by (auto simp: reset_cache_def)
  have r': "reset_cache ?fresh n tot = ?fresh"
    by (simp add: reset_cache_def)
  from assms(2) have n1: "0 \<le> n - 1" by auto
  from assms(3) obtain rerr c where
    res: "resolve_prior_steps ext (fs w) (output_dir self) m prob n tot (previous_llm_code self)
            = (rerr, c)"
    and shape: "self' = self\<lparr>previous_llm_code := c\<rparr>
      \<or> (\<exists>kw prompt resp c'. get_model_function ext m kw prompt = Some resp
            \<and> py_setitem c (n - 1) (Some (extract_python_script ext resp)) = Inr c'
            \<and> self' = self\<lparr>previous_llm_code := c'\<rparr>)"
    by (rule generate_response_cache)
  have lenc: "length c = nat tot"
    using resolve_prior_steps_frame [OF res] res r
    by (cases "n = 1")
       (auto simp: resolve_prior_steps_def dest: resolve_loop_length)
  have orig: "c ! j = None
      \<or> (j < nat (n - 1) \<and> source_body ext (fs w) (output_dir self) m prob j = Some (c ! j))"
    if "j < nat tot" for j
    using resolve_prior_steps_origin [OF res, of j] that by (simp add: r)
  have c1: "c = ?fresh" if "n = 1"
    using res that r by (auto simp: resolve_prior_steps_def)
  have shape': "previous_llm_code self' = c
      \<or> (\<exists>kw prompt resp. get_model_function ext m kw prompt = Some resp
            \<and> nat (n - 1) < length c
            \<and> previous_llm_code self' = c[nat (n - 1) := Some (extract_python_script ext resp)])"
  proof -
    from shape show ?thesis
    proof
      assume "self' = self\<lparr>previous_llm_code := c\<rparr>"
      then show ?thesis by simp
    next
      assume "\<exists>kw prompt resp c'. get_model_function ext m kw prompt = Some resp
            \<and> py_setitem c (n - 1) (Some (extract_python_script ext resp)) = Inr c'
            \<and> self' = self\<lparr>previous_llm_code := c'\<rparr>"
      then obtain kw prompt resp c' where g: "get_model_function ext m kw prompt = Some resp"
        and p: "py_setitem c (n - 1) (Some (extract_python_script ext resp)) = Inr c'"
        and s: "self' = self\<lparr>previous_llm_code := c'\<rparr>"
        by blast
      from py_setitem_nonneg [OF n1 p] s g show ?thesis by auto
    qed
  qed
  have len: "int (length (previous_llm_code self')) = tot"
    using shape' lenc assms(1) by auto
  have slots: "\<forall>j < nat tot.
          previous_llm_code self' ! j = None
          \<or> (j < nat (n - 1)
              \<and> source_body ext (fs w) (output_dir self) m prob j
                    = Some (previous_llm_code self' ! j))
          \<or> (j = nat (n - 1)
              \<and> (\<exists>kw prompt resp.
                    get_model_function ext m kw prompt = Some resp
                    \<and> previous_llm_code self' ! j = Some (extract_python_script ext resp)))"
  proof (intro allI impI)
    fix j assume j: "j < nat tot"
    from shape' show "previous_llm_code self' ! j = None
          \<or> (j < nat (n - 1)
              \<and> source_body ext (fs w) (output_dir self) m prob j
                    = Some (previous_llm_code self' ! j))
          \<or> (j = nat (n - 1)
              \<and> (\<exists>kw prompt resp.
                    get_model_function ext m kw prompt = Some resp
                    \<and> previous_llm_code self' ! j = Some (extract_python_script ext resp)))"
    proof
      assume "previous_llm_code self' = c"
      with orig [OF j] show ?thesis by auto
    next
      assume "\<exists>kw prompt resp. get_model_function ext m kw prompt = Some resp
            \<and> nat (n - 1) < length c
            \<and> previous_llm_code self' = c[nat (n - 1) := Some (extract_python_script ext resp)]"
      then obtain kw prompt resp where g: "get_model_function ext m kw prompt = Some resp"
        and l: "nat (n - 1) < length c"
        and e: "previous_llm_code self' = c[nat (n - 1) := Some (extract_python_script ext resp)]"
        by blast
      show ?thesis
      proof (cases "j = nat (n - 1)")
        case True
        with g l e show ?thesis by auto
      next
        case False
        with e have "previous_llm_code self' ! j = c ! j" by simp
        with orig [OF j] show ?thesis by auto
      qed
    qed
  qed
  have first: "previous_llm_code self' = ?fresh
          \<or> (\<exists>kw prompt resp.
                get_model_function ext m kw prompt = Some resp
                \<and> previous_llm_code self' = ?fresh[0 := Some (extract_python_script ext resp)])"
    if "n = 1"
    using shape' c1 [OF that] that by auto
  have res': "resolve_prior_steps ext (fs w) (output_dir self) m prob n tot (previous_llm_code self)
      = resolve_prior_steps ext (fs w) (output_dir self) m prob n tot ?fresh"
    by (simp only: resolve_prior_steps_def r r')
  have gen: "generate_response_with_steps ext (self\<lparr>previous_llm_code := ?fresh\<rparr>)
          w prob n tot m tmpl save = (err, self', w')"
    using assms(3) by (simp add: generate_response_with_steps_def res')
  from len slots first gen show ?thesis by blast
qed

theorem cache_reset_witness:
  "previous_llm_code stale_gencode = [Some ''stale'', Some ''older'']
   \<and> previous_llm_code (fst (snd (generate_response_with_steps (example_externals [])
        stale_gencode empty_world three_step_problem 1 3 ''m'' example_template True)))
       = [Some ''CODE'', None, None]
   \<and> previous_llm_code (fst (snd (generate_response_with_steps (example_externals [])
        stale_gencode step_one_world three_step_problem 2 3 ''m'' example_template True)))
       = [Some ''import math\<newline>\<newline>CODE'', Some ''CODE'', None]
   \<and> int (length (previous_llm_code (fst (snd (generate_response_with_steps
        (example_externals []) stale_gencode step_one_world three_step_problem 2 3 ''m''
        example_template True))))) = 3"
proof -
  let ?r1 = "generate_response_with_steps (example_externals [])
        stale_gencode empty_world three_step_problem 1 3 ''m'' example_template True"
  let ?r2 = "generate_response_with_steps (example_externals [])
        stale_gencode step_one_world three_step_problem 2 3 ''m'' example_template True"
  have h0: "(0::int) \<le> 3" by simp
  have h1: "(1::int) = 1 \<or> ((1::int) < 1 \<and> int (length (previous_llm_code stale_gencode)) \<noteq> 3)"
    by simp
  have h2: "(2::int) = 1 \<or> ((1::int) < 2 \<and> int (length (previous_llm_code stale_gencode)) \<noteq> 3)"
    by (simp add: stale_gencode_def example_gencode_def)
  have e1: "?r1 = (fst ?r1, fst (snd ?r1), snd (snd ?r1))"
    and e2: "?r2 = (fst ?r2, fst (snd ?r2), snd (snd ?r2))"
    by simp_all
  from cache_reset [OF h0 h2 e2]
  have len2: "int (length (previous_llm_code (fst (snd ?r2)))) = 3"
    by blast
  from cache_reset [OF h0 h1 e1]
  have len1: "int (length (previous_llm_code (fst (snd ?r1)))) = 3"
    by blast
  have v1: "previous_llm_code (fst (snd ?r1)) = [Some ''CODE'', None, None]"
    by code_simp
  have v2: "previous_llm_code (fst (snd ?r2)) =
      [Some ''import math\<newline>\<newline>CODE'', Some ''CODE'', None]"
    by code_simp
  have s: "previous_llm_code stale_gencode = [Some ''stale'', Some ''older'']"
    by (simp add: stale_gencode_def example_gencode_def)
  from s v1 v2 len2 show ?thesis by simp
qed


section \<open>Fixture files\<close>

lemma resolve_loop_resolved:
  "\<forall>i\<in>set js. i < length cache \<and> cache ! i \<noteq> None
     \<Longrightarrow> resolve_loop ext fsys od m prob n js cache = (None, cache)"
  by (induction js) auto

lemma resolve_loop_read:
  assumes "j < length cache" and "cache ! j = None"
    and "fsys (prev_file_path od m (problem_id prob) j) = Some (File content)"
    and "j < length (sub_steps prob)"
    and "extract_function_name ext (function_header (sub_steps prob ! j)) = Some name"
  shows "resolve_loop ext fsys od m prob n (j # rest) cache =
           resolve_loop ext fsys od m prob n rest
             (cache[j := get_function_from_code ext content name])"
  using assms by (simp add: is_file_def read_text_def Let_def)

lemma fixture_override_table_iff:
  "fixture_override p k \<longleftrightarrow> (p, k) \<in> fixture_override_table"
  by (auto simp: fixture_override_def fixture_override_table_def)

text \<open>
  Claim C9. The condition tested by the code holds exactly for the pairs of the Fixture
  Override Table. For such a pair the source file of the prior step is the fixture file
  \<open>eval/data/<problem_id>.<step + 1>.txt\<close>, for every other pair it is the response file
  \<open>output_dir/model/<problem_id>.<step + 1>.py\<close>. When the slots before prior step \<open>j\<close>
  are resolved, the slot of \<open>j\<close> is unresolved and that source file holds a text,
  resolution for target step \<open>j + 2\<close> returns the cache with the function extracted from
  that text in slot \<open>j\<close>, whatever the other file holds. The driver skips the step of a
  pair in the table without generating, and for every other step it is the call of
  \<open>generate_response_with_steps\<close>.
\<close>

theorem fixture_sources:
  "(fixture_override prob_id j \<longleftrightarrow> (prob_id, j) \<in> fixture_override_table)
   \<and> ((prob_id, j) \<in> fixture_override_table \<longrightarrow>
        prev_file_path od m prob_id j =
          [''eval'', ''data'', prob_id @ ''.'' @ str_nat (j + 1) @ ''.txt''])
   \<and> ((prob_id, j) \<notin> fixture_override_table \<longrightarrow>
        prev_file_path od m prob_id j = od @ [m, prob_id @ ''.'' @ str_nat (j + 1) @ ''.py''])
   \<and> (int (length cache) = tot \<and> (\<forall>i < j. cache ! i \<noteq> None)
        \<and> j < length cache \<and> cache ! j = None
        \<and> fsys (if (problem_id prob, j) \<in> fixture_override_table
                 then [''eval'', ''data'', problem_id prob @ ''.'' @ str_nat (j + 1) @ ''.txt'']
                 else od @ [m, problem_id prob @ ''.'' @ str_nat (j + 1) @ ''.py''])
            = Some (File content)
        \<and> j < length (sub_steps prob)
        \<and> extract_function_name ext (function_header (sub_steps prob ! j)) = Some name
        \<longrightarrow> resolve_prior_steps ext fsys od m prob (int j + 2) tot cache =
              (None, cache[j := get_function_from_code ext content name])
            \<and> resolve_loop ext fsys od m prob n (j # rest) cache =
                resolve_loop ext fsys od m prob n rest
                  (cache[j := get_function_from_code ext content name]))
   \<and> ((problem_id prob, i) \<in> fixture_override_table \<longrightarrow>
        steps_loop ext m prob [i] gcode w = (None, gcode, w)
        \<and> steps_loop ext m prob (i # rest') gcode w = steps_loop ext m prob rest' gcode w)
   \<and> ((problem_id prob, i) \<notin> fixture_override_table \<longrightarrow>
        steps_loop ext m prob [i] gcode w =
          generate_response_with_steps ext gcode w prob (int i + 1)
            (int (length (sub_steps prob))) m (DEFAULT_PROMPT_TEMPLATE ext) True
        \<and> steps_loop ext m prob (i # rest') gcode w =
          (case generate_response_with_steps ext gcode w prob (int i + 1)
                  (int (length (sub_steps prob))) m (DEFAULT_PROMPT_TEMPLATE ext) True of
             (Some e, gcode', w') \<Rightarrow> (Some e, gcode', w')
           | (None, gcode', w') \<Rightarrow> steps_loop ext m prob rest' gcode' w'))"
proof -
  note tab = fixture_override_table_iff
  have paths: "prev_file_path od m p k =
      (if (p, k) \<in> fixture_override_table
       then [''eval'', ''data'', p @ ''.'' @ str_nat (k + 1) @ ''.txt'']
       else od @ [m, p @ ''.'' @ str_nat (k + 1) @ ''.py''])" for p k
    by (simp add: prev_file_path_def tab)
  have rd: "resolve_prior_steps ext fsys od m prob (int j + 2) tot cache =
              (None, cache[j := get_function_from_code ext content name])
            \<and> resolve_loop ext fsys od m prob n (j # rest) cache =
                resolve_loop ext fsys od m prob n rest
                  (cache[j := get_function_from_code ext content name])"
    if len: "int (length cache) = tot" and before: "\<forall>i < j. cache ! i \<noteq> None"
      and j: "j < length cache" and slot: "cache ! j = None"
      and src: "fsys (prev_file_path od m (problem_id prob) j) = Some (File content)"
      and sub: "j < length (sub_steps prob)"
      and nm: "extract_function_name ext (function_header (sub_steps prob ! j)) = Some name"
  proof -
    have head: "resolve_loop ext fsys od m prob n' (j # rest) cache =
                resolve_loop ext fsys od m prob n' rest
                  (cache[j := get_function_from_code ext content name])" for n' rest
      using j slot src sub nm by (rule resolve_loop_read)
    have base: "reset_cache cache (int j + 2) tot = cache"
      using len by (simp add: reset_cache_def)
    have upt: "[0 ..< nat (int j + 2 - 1)] = [0 ..< j] @ [j]"
      by (simp add: nat_add_distrib)
    have pre: "resolve_loop ext fsys od m prob (int j + 2) [0 ..< j] cache = (None, cache)"
      using before j by (intro resolve_loop_resolved) auto
    have "resolve_loop ext fsys od m prob (int j + 2) [0 ..< nat (int j + 2 - 1)] cache =
            (None, cache[j := get_function_from_code ext content name])"
      unfolding upt resolve_loop_append pre
      using head [of "int j + 2" "[]"] by (simp del: resolve_loop.simps(2))
    then have "resolve_prior_steps ext fsys od m prob (int j + 2) tot cache =
              (None, cache[j := get_function_from_code ext content name])"
      by (simp add: resolve_prior_steps_def base)
    with head show ?thesis by simp
  qed
  have skip: "steps_loop ext m prob [i] gcode w = (None, gcode, w)
        \<and> steps_loop ext m prob (i # rest') gcode w = steps_loop ext m prob rest' gcode w"
    if "(problem_id prob, i) \<in> fixture_override_table"
    using that by (simp add: tab)
  have gen: "steps_loop ext m prob [i] gcode w =
          generate_response_with_steps ext gcode w prob (int i + 1)
            (int (length (sub_steps prob))) m (DEFAULT_PROMPT_TEMPLATE ext) True
        \<and> steps_loop ext m prob (i # rest') gcode w =
          (case generate_response_with_steps ext gcode w prob (int i + 1)
                  (int (length (sub_steps prob))) m (DEFAULT_PROMPT_TEMPLATE ext) True of
             (Some e, gcode', w') \<Rightarrow> (Some e, gcode', w')
           | (None, gcode', w') \<Rightarrow> steps_loop ext m prob rest' gcode' w')"
    if "(problem_id prob, i) \<notin> fixture_override_table"
    using that by (auto simp: tab split: prod.splits option.splits)
  show ?thesis
    using rd skip gen by (simp add: tab paths)
qed


theorem fixture_sources_witness:
  "(''13'', 5) \<in> fixture_override_table
   \<and> prev_file_path [''out''] ''m'' ''13'' 5 = [''eval'', ''data'', ''13.6.txt'']
   \<and> (''62'', 0) \<in> fixture_override_table
   \<and> resolve_prior_steps (example_externals []) (fs both_world) [''out''] ''m''
        fixture_problem 2 2 [None, None] = (None, [Some ''FIXTURE'', None])
   \<and> steps_loop (example_externals []) ''m'' fixture_problem [0] (example_gencode [])
        both_world = (None, example_gencode [], both_world)
   \<and> (''7'', 0) \<notin> fixture_override_table
   \<and> resolve_prior_steps (example_externals []) (fs step_one_world) [''out''] ''m''
        three_step_problem 2 3 [None, None, None]
       = (None, [Some ''import math\<newline>\<newline>CODE'', None, None])
   \<and> length (calls (snd (snd (steps_loop (example_externals []) ''m'' three_step_problem [0]
        (example_gencode []) empty_world)))) = 1"
proof -
  let ?ext = "example_externals []"
  have t13: "(''13'', 5) \<in> fixture_override_table"
    and t62: "(problem_id fixture_problem, 0) \<in> fixture_override_table"
    and t7: "(problem_id three_step_problem, 0) \<notin> fixture_override_table"
    by (simp_all add: fixture_override_table_def fixture_problem_def three_step_problem_def)
  have p13: "prev_file_path [''out''] ''m'' ''13'' 5 = [''eval'', ''data'', ''13.6.txt'']"
  proof -
    from t13 fixture_sources [where prob_id = "''13''" and j = 5 and od = "[''out'']"
        and m = "''m''"]
    have "prev_file_path [''out''] ''m'' ''13'' 5 =
            [''eval'', ''data'', ''13'' @ ''.'' @ str_nat (5 + 1) @ ''.txt'']"
      by blast
    moreover have "str_nat (5 + 1) = ''6''" by code_simp
    ultimately show ?thesis by simp
  qed
  have a: "resolve_prior_steps ?ext (fs both_world) [''out''] ''m'' fixture_problem 2 2
             [None, None] = (None, [Some ''FIXTURE'', None])
           \<and> steps_loop ?ext ''m'' fixture_problem [0] (example_gencode []) both_world
               = (None, example_gencode [], both_world)"
  proof -
    have hyp: "int (length [None :: string option, None]) = 2
        \<and> (\<forall>i < (0::nat). [None :: string option, None] ! i \<noteq> None)
        \<and> (0::nat) < length [None :: string option, None]
        \<and> [None :: string option, None] ! 0 = None
        \<and> fs both_world
             (if (problem_id fixture_problem, 0) \<in> fixture_override_table
              then [''eval'', ''data'', problem_id fixture_problem @ ''.'' @ str_nat (0 + 1)
                      @ ''.txt'']
              else [''out''] @ [''m'', problem_id fixture_problem @ ''.'' @ str_nat (0 + 1)
                      @ ''.py''])
            = Some (File ''FIXTURE'')
        \<and> 0 < length (sub_steps fixture_problem)
        \<and> extract_function_name ?ext (function_header (sub_steps fixture_problem ! 0))
            = Some ''f''"
      using t62
      by (simp add: both_world_def fixture_problem_def example_externals_def str_nat_digits)
    from fixture_sources [where j = 0 and od = "[''out'']" and m = "''m''"
        and cache = "[None, None]" and tot = 2 and fsys = "fs both_world"
        and prob = fixture_problem and content = "''FIXTURE''" and ext = ?ext
        and name = "''f''" and i = 0 and gcode = "example_gencode []" and w = both_world]
      hyp t62
    have "resolve_prior_steps ?ext (fs both_world) [''out''] ''m'' fixture_problem (int 0 + 2) 2
             [None, None] = (None, [None, None][0 := get_function_from_code ?ext ''FIXTURE'' ''f''])"
      and "steps_loop ?ext ''m'' fixture_problem [0] (example_gencode []) both_world
               = (None, example_gencode [], both_world)"
      by blast+
    then show ?thesis
      by (simp add: example_externals_def)
  qed
  have b: "resolve_prior_steps ?ext (fs step_one_world) [''out''] ''m'' three_step_problem 2 3
             [None, None, None] = (None, [Some ''import math\<newline>\<newline>CODE'', None, None])
           \<and> steps_loop ?ext ''m'' three_step_problem [0] (example_gencode []) empty_world
               = generate_response_with_steps ?ext (example_gencode []) empty_world
                   three_step_problem (int 0 + 1) (int (length (sub_steps three_step_problem)))
                   ''m'' (DEFAULT_PROMPT_TEMPLATE ?ext) True"
  proof -
    have hyp: "int (length [None :: string option, None, None]) = 3
        \<and> (\<forall>i < (0::nat). [None :: string option, None, None] ! i \<noteq> None)
        \<and> (0::nat) < length [None :: string option, None, None]
        \<and> [None :: string option, None, None] ! 0 = None
        \<and> fs step_one_world
             (if (problem_id three_step_problem, 0) \<in> fixture_override_table
              then [''eval'', ''data'', problem_id three_step_problem @ ''.'' @ str_nat (0 + 1)
                      @ ''.txt'']
              else [''out''] @ [''m'', problem_id three_step_problem @ ''.'' @ str_nat (0 + 1)
                      @ ''.py''])
            = Some (File ''import math\<newline>\<newline>CODE'')
        \<and> 0 < length (sub_steps three_step_problem)
        \<and> extract_function_name ?ext (function_header (sub_steps three_step_problem ! 0))
            = Some ''f''"
      using t7
      by (simp add: step_one_world_def three_step_problem_def example_externals_def
          str_nat_digits)
    from fixture_sources [where j = 0 and od = "[''out'']" and m = "''m''"
        and cache = "[None, None, None]" and tot = 3 and fsys = "fs step_one_world"
        and prob = three_step_problem and content = "''import math\<newline>\<newline>CODE''" and ext = ?ext
        and name = "''f''" and i = 0 and gcode = "example_gencode []" and w = empty_world]
      hyp t7
    have "resolve_prior_steps ?ext (fs step_one_world) [''out''] ''m'' three_step_problem
             (int 0 + 2) 3 [None, None, None]
           = (None, [None, None, None]
                [0 := get_function_from_code ?ext ''import math\<newline>\<newline>CODE'' ''f''])"
      and "steps_loop ?ext ''m'' three_step_problem [0] (example_gencode []) empty_world
               = generate_response_with_steps ?ext (example_gencode []) empty_world
                   three_step_problem (int 0 + 1) (int (length (sub_steps three_step_problem)))
                   ''m'' (DEFAULT_PROMPT_TEMPLATE ?ext) True"
      by blast+
    then show ?thesis
      by (simp add: example_externals_def)
  qed
  have c: "length (calls (snd (snd (generate_response_with_steps ?ext (example_gencode [])
             empty_world three_step_problem (int 0 + 1)
             (int (length (sub_steps three_step_problem))) ''m''
             (DEFAULT_PROMPT_TEMPLATE ?ext) True)))) = 1"
    by code_simp
  from t13 p13 t62 t7 a b c show ?thesis
    by (simp add: fixture_problem_def three_step_problem_def)
qed


section \<open>An existing response file\<close>










end
